theory Spec2Isabelle
  imports Main
begin

section \<open>JavaScript values\<close>

text \<open>
  The handlers build plain JavaScript objects and hand them to \<^verbatim>\<open>res.json\<close>.
  Numbers are IEEE doubles in the program; the model keeps the shapes that occur: \<open>NaN\<close>,
  the two infinities, an integer (\<open>IntN n\<close> stands for the double nearest to \<open>n\<close>, which
  is \<open>n\<close> itself up to \<open>2^53\<close>; it is used only for \<open>n\<close> in the range of the finite
  doubles), and a decimal literal (\<open>DecN m e\<close> is \<open>m / 10^e\<close>, as in
  \<^verbatim>\<open>confidence: 0.95\<close>). \<open>Fun f\<close> is a function object, \<open>ObjectPrototype\<close> is
  \<^verbatim>\<open>Object.prototype\<close>. A string is the list of the bytes of its UTF-8 encoding, so a
  character of plain ASCII is one element.
\<close>

datatype jsnum = NaN | Infinity | NegInfinity | IntN int | DecN int nat

datatype jsval =
    Undefined
  | Null
  | Bool bool
  | Num jsnum
  | Str string
  | Arr "jsval list"
  | Obj "(string \<times> jsval) list"
  | Fun string
  | ObjectPrototype

text \<open>Truthiness, as \<^verbatim>\<open>!x\<close> and \<^verbatim>\<open>x || y\<close> use it.\<close>

fun truthy :: "jsval \<Rightarrow> bool" where
  "truthy Undefined = False"
| "truthy Null = False"
| "truthy (Bool b) = b"
| "truthy (Num NaN) = False"
| "truthy (Num Infinity) = True"
| "truthy (Num NegInfinity) = True"
| "truthy (Num (IntN n)) = (n \<noteq> 0)"
| "truthy (Num (DecN m e)) = (m \<noteq> 0)"
| "truthy (Str s) = (s \<noteq> [])"
| "truthy (Arr xs) = True"
| "truthy (Obj ps) = True"
| "truthy (Fun f) = True"
| "truthy ObjectPrototype = True"

definition js_or :: "jsval \<Rightarrow> jsval \<Rightarrow> jsval" where
  "js_or a b = (if truthy a then a else b)"

text \<open>
  Reading a property. An object literal inherits from \<^verbatim>\<open>Object.prototype\<close>, so a key that
  is not an own property is looked up there before the read gives \<^verbatim>\<open>undefined\<close>.
\<close>

definition object_prototype_methods :: "string list" where
  "object_prototype_methods =
     [''constructor'', ''hasOwnProperty'', ''isPrototypeOf'', ''propertyIsEnumerable'',
      ''toLocaleString'', ''toString'', ''valueOf'', ''__defineGetter__'', ''__defineSetter__'',
      ''__lookupGetter__'', ''__lookupSetter__'']"

definition object_prototype_get :: "string \<Rightarrow> jsval" where
  "object_prototype_get k =
     (if k \<in> set object_prototype_methods then Fun k
      else if k = ''__proto__'' then ObjectPrototype
      else Undefined)"

fun js_get :: "jsval \<Rightarrow> string \<Rightarrow> jsval" where
  "js_get (Obj ps) k = (case map_of ps k of Some v \<Rightarrow> v | None \<Rightarrow> object_prototype_get k)"
| "js_get ObjectPrototype k = object_prototype_get k"
| "js_get v k = Undefined"

text \<open>\<^verbatim>\<open>[...new Set(xs)]\<close>: the distinct elements, in order of first occurrence.\<close>

definition js_set_add :: "'a list \<Rightarrow> 'a \<Rightarrow> 'a list" where
  "js_set_add s x = (if x \<in> set s then s else s @ [x])"

definition js_new_Set :: "'a list \<Rightarrow> 'a list" where
  "js_new_Set xs = foldl js_set_add [] xs"

text \<open>
  What \<^verbatim>\<open>JSON.stringify\<close> puts on the wire for a value: \<open>NaN\<close> and the infinities
  become \<open>null\<close>, a property
  whose value is \<^verbatim>\<open>undefined\<close> or a function is left out, such an array element becomes
  \<open>null\<close>, and \<^verbatim>\<open>Object.prototype\<close> has no enumerable property of its own.
\<close>

fun omitted :: "jsval \<Rightarrow> bool" where
  "omitted Undefined = True"
| "omitted (Fun f) = True"
| "omitted v = False"

fun wire :: "jsval \<Rightarrow> jsval"
  and wire_elems :: "jsval list \<Rightarrow> jsval list"
  and wire_props :: "(string \<times> jsval) list \<Rightarrow> (string \<times> jsval) list" where
  "wire (Num NaN) = Null"
| "wire (Num Infinity) = Null"
| "wire (Num NegInfinity) = Null"
| "wire (Arr xs) = Arr (wire_elems xs)"
| "wire (Obj ps) = Obj (wire_props ps)"
| "wire ObjectPrototype = Obj []"
| "wire v = v"
| "wire_elems [] = []"
| "wire_elems (x # xs) = (if omitted x then Null else wire x) # wire_elems xs"
| "wire_props [] = []"
| "wire_props ((k, v) # ps) = (if omitted v then wire_props ps else (k, wire v) # wire_props ps)"

section \<open>Strings\<close>

text \<open>
  \<^verbatim>\<open>s.toLowerCase()\<close>: the letters A to Z are mapped and every other byte stays. (The case
  mappings of characters outside ASCII are not modelled; none of them yields a string that
  the program compares with.)
\<close>

definition lower_char :: "char \<Rightarrow> char" where
  "lower_char c =
     (case map_of (zip ''ABCDEFGHIJKLMNOPQRSTUVWXYZ'' ''abcdefghijklmnopqrstuvwxyz'') c of
        Some d \<Rightarrow> d
      | None \<Rightarrow> c)"

definition toLowerCase :: "string \<Rightarrow> string" where
  "toLowerCase s = map lower_char s"

text \<open>\<^verbatim>\<open>s.includes(t)\<close>: \<open>t\<close> occurs in \<open>s\<close> as a contiguous block.\<close>

fun starts_with :: "string \<Rightarrow> string \<Rightarrow> bool" where
  "starts_with s [] = True"
| "starts_with [] (c # t) = False"
| "starts_with (d # s) (c # t) = (d = c \<and> starts_with s t)"

fun str_includes :: "string \<Rightarrow> string \<Rightarrow> bool" where
  "str_includes [] t = (t = [])"
| "str_includes (c # s) t = (starts_with (c # s) t \<or> str_includes s t)"

text \<open>\<^verbatim>\<open>s.substr(start, len)\<close> for non-negative arguments.\<close>

definition substr :: "string \<Rightarrow> nat \<Rightarrow> nat \<Rightarrow> string" where
  "substr s start len = take len (drop start s)"

text \<open>\<^verbatim>\<open>n.toString(radix)\<close> for a non-negative integer \<open>n\<close> and a radix from 2 to 36.\<close>

definition digit_char :: "nat \<Rightarrow> char" where
  "digit_char d = ''0123456789abcdefghijklmnopqrstuvwxyz'' ! d"

fun toString_radix :: "nat \<Rightarrow> nat \<Rightarrow> string" where
  "toString_radix r n =
     (if r < 2 \<or> n < r then [digit_char n] else toString_radix r (n div r) @ [digit_char (n mod r)])"

declare toString_radix.simps [simp del]

section \<open>Requests, responses and the environment\<close>

text \<open>
  An exception as the error middleware reads it: its \<^verbatim>\<open>message\<close>, \<^verbatim>\<open>name\<close> and \<^verbatim>\<open>stack\<close>, its
  \<^verbatim>\<open>status\<close> when it declares one (a status is a non-negative integer), and its own
  enumerable properties, which is what serialising the exception itself shows.
\<close>

record js_error =
  e_message :: jsval
  e_name :: jsval
  e_stack :: jsval
  e_status :: "nat option"
  e_enumerable :: "(string \<times> jsval) list"

text \<open>
  A request as the handlers see it: header names are lower-case (Node stores them so), the
  path is the list of decoded segments below the mount point (\<open>originalUrl\<close> keeps the
  text of the full URL), \<open>body\<close> is \<^verbatim>\<open>req.body\<close>,
  and \<open>requestId\<close> and \<open>startTime\<close> are the two fields the tagging middleware adds
  (\<open>Undefined\<close> until it has run). \<open>body_error\<close> is the exception that the body parsers
  raise on the raw body of the request (malformed JSON, a payload above the limit), if they
  raise one; \<open>body\<close> is what they leave in \<^verbatim>\<open>req.body\<close> otherwise.
\<close>

record request =
  req_method :: string
  originalUrl :: string
  path :: "string list"
  req_headers :: "string \<Rightarrow> string option"
  ip :: string
  body_error :: "js_error option"
  body :: jsval
  requestId :: jsval
  startTime :: jsval

record response =
  status :: nat
  headers :: "(string \<times> string) list"
  sent :: "jsval option"

text \<open>
  What the program reads from outside: \<^verbatim>\<open>process.env.NODE_ENV\<close>, the clock and the random
  generator. The argument of \<open>dateNow\<close>, \<open>random36\<close>, \<open>random100\<close> and \<open>random_number\<close>
  names the call site, so that two readings are never assumed equal: \<open>dateNow e k\<close> is what
  \<^verbatim>\<open>Date.now()\<close> or \<^verbatim>\<open>new Date()\<close> gives at site \<open>k\<close>, \<open>random36 e k\<close> is
  \<^verbatim>\<open>Math.random().toString(36)\<close> there, \<open>random100 e k\<close> is \<^verbatim>\<open>Math.random() * 100\<close>, and
  \<open>random_number e k\<close> is the value of the arithmetic expression that the source builds
  on \<^verbatim>\<open>Math.random()\<close> at site \<open>k\<close> (the floating-point arithmetic itself is not modelled).
  \<open>toISOString\<close> renders a time value as \<^verbatim>\<open>Date.prototype.toISOString\<close> does. The
  \<open>process_\<close> fields are \<^verbatim>\<open>process.uptime()\<close>, \<^verbatim>\<open>process.memoryUsage()\<close>, \<^verbatim>\<open>process.version\<close>,
  \<^verbatim>\<open>process.platform\<close> and \<^verbatim>\<open>process.arch\<close>.
\<close>

record env =
  NODE_ENV :: "string option"
  dateNow :: "nat \<Rightarrow> nat"
  toISOString :: "nat \<Rightarrow> string"
  random36 :: "nat \<Rightarrow> string"
  random100 :: "nat \<Rightarrow> jsnum"
  random_number :: "nat \<Rightarrow> jsnum"
  process_uptime :: jsnum
  process_memoryUsage :: jsval
  process_version :: string
  process_platform :: string
  process_arch :: string

definition new_response :: response where
  "new_response = \<lparr>status = 200, headers = [], sent = None\<rparr>"

text \<open>\<^verbatim>\<open>res.setHeader\<close> / \<^verbatim>\<open>res.set\<close>: header names are case-insensitive, a later value replaces.\<close>

definition res_setHeader :: "string \<Rightarrow> string \<Rightarrow> response \<Rightarrow> response" where
  "res_setHeader k v res =
     res\<lparr>headers := filter (\<lambda>(k', v'). toLowerCase k' \<noteq> toLowerCase k) (headers res) @ [(k, v)]\<rparr>"

definition res_set :: "(string \<times> string) list \<Rightarrow> response \<Rightarrow> response" where
  "res_set kvs res = foldl (\<lambda>r (k, v). res_setHeader k v r) res kvs"

definition res_getHeader :: "response \<Rightarrow> string \<Rightarrow> string option" where
  "res_getHeader res k = map_of (map (\<lambda>(k', v'). (toLowerCase k', v')) (headers res)) (toLowerCase k)"

definition res_status :: "nat \<Rightarrow> response \<Rightarrow> response" where
  "res_status n res = res\<lparr>status := n\<rparr>"

definition res_json :: "jsval \<Rightarrow> response \<Rightarrow> response" where
  "res_json v res = res\<lparr>sent := Some v\<rparr>"

section \<open>The services router\<close>

text \<open>The \<^verbatim>\<open>services\<close> array of the list handler.\<close>

definition services :: "jsval list" where
  "services = [
    Obj [
      (''id'', Num (IntN 1)),
      (''name'', Str ''Custom Software Development''),
      (''description'', Str ''Tailored software solutions designed to meet your specific business requirements and workflows. We specialize in creating scalable, maintainable applications that drive business growth.''),
      (''price'', Str ''Starting from $5,000''),
      (''category'', Str ''Development''),
      (''features'', Arr [Str ''Web Applications (React, Angular, Vue.js)'',
        Str ''Desktop Applications (Windows, macOS, Linux)'',
        Str ''Mobile Apps (iOS, Android, Cross-platform)'',
        Str ''API Development (REST, GraphQL, Microservices)'',
        Str ''System Integration & Legacy Modernization'', Str ''Cloud-Native Applications'',
        Str ''Progressive Web Apps (PWA)'', Str ''Real-time Applications'',
        Str ''E-commerce Solutions'', Str ''Enterprise Resource Planning (ERP)'']),
      (''icon'', Str ''code''),
      (''color'', Str ''blue''),
      (''deliveryTime'', Str ''4-12 weeks''),
      (''technologies'', Arr [Str ''React'', Str ''Node.js'', Str ''Python'', Str ''Java'', Str ''C#'',
        Str ''Flutter'', Str ''React Native''])],
    Obj [
      (''id'', Num (IntN 2)),
      (''name'', Str ''Database Management & Analytics''),
      (''description'', Str ''Comprehensive database solutions with advanced analytics, reporting, and data management capabilities. We help organizations unlock the full potential of their data.''),
      (''price'', Str ''Starting from $3,000''),
      (''category'', Str ''Data''),
      (''features'', Arr [Str ''Database Design & Architecture'', Str ''Data Migration & ETL Processes'',
        Str ''Performance Optimization & Tuning'', Str ''Backup & Disaster Recovery'',
        Str ''Data Analytics & Business Intelligence'', Str ''Data Warehousing Solutions'',
        Str ''Real-time Data Processing'', Str ''Data Quality Management'',
        Str ''Compliance & Data Governance'', Str ''Machine Learning Integration'']),
      (''icon'', Str ''database''),
      (''color'', Str ''green''),
      (''deliveryTime'', Str ''2-8 weeks''),
      (''technologies'', Arr [Str ''PostgreSQL'', Str ''MySQL'', Str ''MongoDB'', Str ''Redis'',
        Str ''Elasticsearch'', Str ''Apache Kafka''])],
    Obj [
      (''id'', Num (IntN 3)),
      (''name'', Str ''System Integration & API Development''),
      (''description'', Str ''Seamless integration of existing systems and third-party applications for improved efficiency and data flow across your organization.''),
      (''price'', Str ''Starting from $4,000''),
      (''category'', Str ''Integration''),
      (''features'', Arr [Str ''API Development & Management'', Str ''Legacy System Integration'',
        Str ''Cloud Integration (AWS, Azure, GCP)'', Str ''Workflow Automation & Orchestration'',
        Str ''Data Synchronization & Mapping'', Str ''Third-party Service Integration'',
        Str ''Webhook Implementation'', Str ''Message Queue Systems'',
        Str ''Real-time Data Streaming'', Str ''API Gateway & Security'']),
      (''icon'', Str ''settings''),
      (''color'', Str ''purple''),
      (''deliveryTime'', Str ''3-10 weeks''),
      (''technologies'', Arr [Str ''Node.js'', Str ''Python'', Str ''Java'', Str ''Apache Kafka'', Str ''RabbitMQ'',
        Str ''Docker''])],
    Obj [
      (''id'', Num (IntN 4)),
      (''name'', Str ''User Management & Security Systems''),
      (''description'', Str ''Comprehensive user management and access control systems for enhanced security, compliance, and user experience.''),
      (''price'', Str ''Starting from $2,500''),
      (''category'', Str ''Security''),
      (''features'', Arr [Str ''User Authentication & Authorization'', Str ''Role-based Access Control (RBAC)'',
        Str ''Single Sign-On (SSO) & SAML'', Str ''Multi-factor Authentication (MFA)'',
        Str ''User Analytics & Behavior Tracking'', Str ''Security Auditing & Compliance'',
        Str ''Password Management & Policies'', Str ''Session Management'',
        Str ''API Security & Rate Limiting'', Str ''Data Privacy & GDPR Compliance'']),
      (''icon'', Str ''users''),
      (''color'', Str ''orange''),
      (''deliveryTime'', Str ''2-6 weeks''),
      (''technologies'', Arr [Str ''JWT'', Str ''OAuth 2.0'', Str ''SAML'', Str ''LDAP'', Str ''Active Directory'',
        Str ''Redis''])],
    Obj [
      (''id'', Num (IntN 5)),
      (''name'', Str ''Advanced Analytics & Business Intelligence''),
      (''description'', Str ''Advanced analytics and real-time reporting solutions for data-driven decision making and business growth.''),
      (''price'', Str ''Starting from $3,500''),
      (''category'', Str ''Analytics''),
      (''features'', Arr [Str ''Business Intelligence Dashboards'', Str ''Real-time Data Visualization'',
        Str ''Custom Report Generation'', Str ''Advanced Data Analytics'',
        Str ''Predictive Analytics & Forecasting'', Str ''Machine Learning Models'',
        Str ''Data Mining & Pattern Recognition'', Str ''Performance Metrics & KPIs'',
        Str ''Interactive Charts & Graphs'', Str ''Automated Insights & Alerts'']),
      (''icon'', Str ''bar-chart''),
      (''color'', Str ''pink''),
      (''deliveryTime'', Str ''3-8 weeks''),
      (''technologies'', Arr [Str ''Tableau'', Str ''Power BI'', Str ''Python'', Str ''R'', Str ''Apache Spark'',
        Str ''TensorFlow''])],
    Obj [
      (''id'', Num (IntN 6)),
      (''name'', Str ''Cybersecurity & Compliance Solutions''),
      (''description'', Str ''Enterprise-grade security solutions with advanced threat detection, encryption, and compliance standards.''),
      (''price'', Str ''Starting from $4,500''),
      (''category'', Str ''Security''),
      (''features'', Arr [Str ''Security Auditing & Assessment'',
        Str ''Penetration Testing & Vulnerability Scanning'',
        Str ''Compliance Management (SOC2, ISO27001)'', Str ''Data Encryption & Key Management'',
        Str ''Security Monitoring & Incident Response'', Str ''Threat Intelligence & Analysis'',
        Str ''Network Security & Firewall Management'', Str ''Endpoint Protection & Detection'',
        Str ''Security Awareness Training'', Str ''Risk Assessment & Management'']),
      (''icon'', Str ''shield''),
      (''color'', Str ''red''),
      (''deliveryTime'', Str ''4-12 weeks''),
      (''technologies'', Arr [Str ''Wireshark'', Str ''Nmap'', Str ''Metasploit'', Str ''Snort'', Str ''OSSEC'',
        Str ''OpenVAS''])],
    Obj [
      (''id'', Num (IntN 7)),
      (''name'', Str ''Cloud Infrastructure & DevOps''),
      (''description'', Str ''Cloud infrastructure setup, management, and DevOps automation for scalable, reliable applications.''),
      (''price'', Str ''Starting from $6,000''),
      (''category'', Str ''Infrastructure''),
      (''features'', Arr [Str ''Cloud Architecture Design'', Str ''Infrastructure as Code (IaC)'',
        Str ''CI/CD Pipeline Automation'', Str ''Container Orchestration (Kubernetes)'',
        Str ''Monitoring & Logging Solutions'', Str ''Auto-scaling & Load Balancing'',
        Str ''Disaster Recovery & Backup'', Str ''Security & Compliance'',
        Str ''Cost Optimization'', Str ''Performance Tuning'']),
      (''icon'', Str ''cloud''),
      (''color'', Str ''indigo''),
      (''deliveryTime'', Str ''6-16 weeks''),
      (''technologies'', Arr [Str ''AWS'', Str ''Azure'', Str ''GCP'', Str ''Docker'', Str ''Kubernetes'',
        Str ''Terraform'', Str ''Jenkins''])],
    Obj [
      (''id'', Num (IntN 8)),
      (''name'', Str ''AI & Machine Learning Solutions''),
      (''description'', Str ''Custom AI and machine learning solutions to automate processes, gain insights, and create intelligent applications.''),
      (''price'', Str ''Starting from $8,000''),
      (''category'', Str ''AI/ML''),
      (''features'', Arr [Str ''Custom AI Model Development'', Str ''Natural Language Processing (NLP)'',
        Str ''Computer Vision & Image Recognition'', Str ''Predictive Analytics & Forecasting'',
        Str ''Recommendation Systems'', Str ''Chatbot & Virtual Assistant Development'',
        Str ''Data Preprocessing & Feature Engineering'', Str ''Model Training & Optimization'',
        Str ''AI Integration & APIs'', Str ''Continuous Learning & Model Updates'']),
      (''icon'', Str ''zap''),
      (''color'', Str ''yellow''),
      (''deliveryTime'', Str ''8-20 weeks''),
      (''technologies'', Arr [Str ''TensorFlow'', Str ''PyTorch'', Str ''Scikit-learn'', Str ''OpenAI'',
        Str ''Hugging Face'', Str ''Python''])],
    Obj [
      (''id'', Num (IntN 9)),
      (''name'', Str ''Mobile App Development''),
      (''description'', Str ''Native and cross-platform mobile applications with modern UI/UX design and advanced features.''),
      (''price'', Str ''Starting from $7,000''),
      (''category'', Str ''Mobile''),
      (''features'', Arr [Str ''Native iOS & Android Development'',
        Str ''Cross-platform Development (React Native, Flutter)'',
        Str ''Progressive Web Apps (PWA)'', Str ''Mobile App Testing & QA'',
        Str ''App Store Optimization (ASO)'', Str ''Push Notifications & Analytics'',
        Str ''Offline Functionality'', Str ''Social Media Integration'',
        Str ''Payment Gateway Integration'', Str ''App Maintenance & Updates'']),
      (''icon'', Str ''smartphone''),
      (''color'', Str ''teal''),
      (''deliveryTime'', Str ''6-16 weeks''),
      (''technologies'', Arr [Str ''Swift'', Str ''Kotlin'', Str ''React Native'', Str ''Flutter'',
        Str ''Firebase'', Str ''AWS Amplify''])],
    Obj [
      (''id'', Num (IntN 10)),
      (''name'', Str ''E-commerce & Digital Commerce''),
      (''description'', Str ''Complete e-commerce solutions with advanced features, payment processing, and customer management.''),
      (''price'', Str ''Starting from $9,000''),
      (''category'', Str ''E-commerce''),
      (''features'', Arr [Str ''Custom E-commerce Platform Development'', Str ''Payment Gateway Integration'',
        Str ''Inventory Management Systems'', Str ''Customer Relationship Management'',
        Str ''Order Processing & Fulfillment'', Str ''Multi-store Management'',
        Str ''Mobile Commerce Solutions'', Str ''Analytics & Reporting'',
        Str ''Marketing & SEO Tools'', Str ''Security & PCI Compliance'']),
      (''icon'', Str ''shopping-cart''),
      (''color'', Str ''cyan''),
      (''deliveryTime'', Str ''8-20 weeks''),
      (''technologies'', Arr [Str ''Shopify'', Str ''WooCommerce'', Str ''Magento'', Str ''Node.js'', Str ''React'',
        Str ''Stripe''])]]"

text \<open>\<^verbatim>\<open>router.get('/')\<close>. Nothing in its \<^verbatim>\<open>try\<close> block throws, so the \<^verbatim>\<open>catch\<close> is not a branch.\<close>

definition get_services :: "env \<Rightarrow> request \<Rightarrow> response \<Rightarrow> response" where
  "get_services e req res =
     res_json (Obj [
       (''message'', Str ''Services retrieved successfully''),
       (''data'', Arr services),
       (''metadata'', Obj [
         (''ai_compatible'', Bool True),
         (''total_services'', Num (IntN (int (length services)))),
         (''categories'', Arr (js_new_Set (map (\<lambda>s. js_get s ''category'') services))),
         (''ai_enhanced_features'', Arr [
           Str ''Intelligent Service Matching'',
           Str ''AI-Powered Recommendations'',
           Str ''Predictive Delivery Estimates'',
           Str ''Automated Workflow Integration'']),
         (''timestamp'', Str (toISOString e (dateNow e 11))),
         (''request_id'', Str (''svc_'' @ toString_radix 10 (dateNow e 12) @ ''_''
                                @ substr (random36 e 1) 2 9))])])
     (res_set [
        (''Cache-Control'', ''no-cache, no-store, must-revalidate, private''),
        (''Pragma'', ''no-cache''),
        (''Expires'', ''0''),
        (''ETag'', [CHR 0x22] @ toString_radix 10 (dateNow e 10) @ [CHR 0x22])] res)"


text \<open>
  \<^verbatim>\<open>parseInt(s)\<close>: leading white space is dropped, then an optional sign, then an optional
  \<^verbatim>\<open>0x\<close> prefix (which makes the radix 16); the longest run of digits of the radix is
  read, and what follows is ignored. No digit at all gives \<open>NaN\<close>. The result is the double
  nearest to the integer read, which is an infinity from \<open>2^1024 - 2^970\<close> on.

  White space is what JavaScript trims: the code points 9 to 13 and 32, which are one byte
  each, and U+00A0, U+1680, U+2000 to U+200A, U+2028, U+2029, U+202F, U+205F, U+3000 and
  U+FEFF, which are two or three bytes in UTF-8.
\<close>

definition js_whitespace :: "char \<Rightarrow> bool" where
  "js_whitespace c = ((of_char c :: nat) \<in> {9, 10, 11, 12, 13, 32})"

definition unicode_whitespace :: "string list" where
  "unicode_whitespace = [
     [CHR 0xC2, CHR 0xA0],
     [CHR 0xE1, CHR 0x9A, CHR 0x80],
     [CHR 0xE2, CHR 0x80, CHR 0x80], [CHR 0xE2, CHR 0x80, CHR 0x81],
     [CHR 0xE2, CHR 0x80, CHR 0x82], [CHR 0xE2, CHR 0x80, CHR 0x83],
     [CHR 0xE2, CHR 0x80, CHR 0x84], [CHR 0xE2, CHR 0x80, CHR 0x85],
     [CHR 0xE2, CHR 0x80, CHR 0x86], [CHR 0xE2, CHR 0x80, CHR 0x87],
     [CHR 0xE2, CHR 0x80, CHR 0x88], [CHR 0xE2, CHR 0x80, CHR 0x89],
     [CHR 0xE2, CHR 0x80, CHR 0x8A],
     [CHR 0xE2, CHR 0x80, CHR 0xA8], [CHR 0xE2, CHR 0x80, CHR 0xA9],
     [CHR 0xE2, CHR 0x80, CHR 0xAF],
     [CHR 0xE2, CHR 0x81, CHR 0x9F],
     [CHR 0xE3, CHR 0x80, CHR 0x80],
     [CHR 0xEF, CHR 0xBB, CHR 0xBF]]"

fun trim_start :: "string \<Rightarrow> string" where
  "trim_start [] = []"
| "trim_start (c # s) =
     (if js_whitespace c then trim_start s
      else case find (starts_with (c # s)) unicode_whitespace of
        Some w \<Rightarrow> trim_start (drop (length w - 1) s)
      | None \<Rightarrow> c # s)"

definition digit_value :: "char \<Rightarrow> nat" where
  "digit_value c =
     (let n = (of_char c :: nat) in
      if 48 \<le> n \<and> n \<le> 57 then n - 48
      else if 97 \<le> n \<and> n \<le> 122 then n - 87
      else if 65 \<le> n \<and> n \<le> 90 then n - 55
      else 36)"

definition digits_value :: "nat \<Rightarrow> string \<Rightarrow> nat" where
  "digits_value r ds = foldl (\<lambda>acc c. acc * r + digit_value c) 0 ds"

text \<open>The double for a sign and a magnitude: the nearest one, an infinity when out of range.\<close>

definition to_double :: "bool \<Rightarrow> nat \<Rightarrow> jsnum" where
  "to_double neg n =
     (if n < 2 ^ 1024 - 2 ^ 970 then IntN ((if neg then - 1 else 1) * int n)
      else if neg then NegInfinity else Infinity)"

definition parseInt :: "string \<Rightarrow> jsnum" where
  "parseInt s =
     (let s1 = trim_start s;
          neg = starts_with s1 ''-'';
          s2 = (if starts_with s1 ''-'' \<or> starts_with s1 ''+'' then tl s1 else s1);
          hex = (starts_with s2 ''0x'' \<or> starts_with s2 ''0X'');
          r = (if hex then 16 else 10);
          s3 = (if hex then drop 2 s2 else s2);
          ds = takeWhile (\<lambda>c. digit_value c < r) s3
      in if ds = [] then NaN else to_double neg (digits_value r ds))"

text \<open>\<^verbatim>\<open>router.get('/test')\<close>.\<close>

definition get_services_test :: "env \<Rightarrow> request \<Rightarrow> response \<Rightarrow> response" where
  "get_services_test e req res =
     res_json (Obj [
       (''message'', Str ''Services route is working!''),
       (''timestamp'', Str (toISOString e (dateNow e 20))),
       (''route'', Str ''/api/services/test'')]) res"

text \<open>\<^verbatim>\<open>router.get('/:id')\<close>: the mock \<^verbatim>\<open>service\<close> object, then the response.\<close>

definition service :: "string \<Rightarrow> jsval" where
  "service id_param =
     Obj [
       (''id'', Num (parseInt id_param)),
       (''name'', Str ''Custom Software Development''),
       (''description'', Str ''Tailored software solutions designed to meet your specific business requirements and workflows. Our experienced development team works closely with you to understand your needs and deliver high-quality, scalable solutions.''),
       (''price'', Str ''Starting from $5,000''),
       (''category'', Str ''Development''),
       (''features'', Arr [Str ''Web Applications'', Str ''Desktop Applications'', Str ''Mobile Apps'',
         Str ''API Development'', Str ''System Integration'']),
       (''process'', Arr [
         Obj [
           (''step'', Num (IntN 1)),
           (''title'', Str ''Discovery''),
           (''description'', Str ''We analyze your requirements and create a detailed project plan.'')],
         Obj [
           (''step'', Num (IntN 2)),
           (''title'', Str ''Design''),
           (''description'', Str ''We create wireframes and design mockups for your approval.'')],
         Obj [
           (''step'', Num (IntN 3)),
           (''title'', Str ''Development''),
           (''description'', Str ''Our team develops your solution using agile methodologies.'')],
         Obj [
           (''step'', Num (IntN 4)),
           (''title'', Str ''Deployment''),
           (''description'', Str ''We deploy your solution and provide ongoing support.'')]]),
       (''technologies'', Arr [Str ''React'', Str ''Node.js'', Str ''Python'', Str ''PostgreSQL'', Str ''MongoDB'',
         Str ''AWS'']),
       (''icon'', Str ''code''),
       (''color'', Str ''blue''),
       (''createdAt'', Str ''2024-01-01T00:00:00.000Z''),
       (''updatedAt'', Str ''2024-01-15T10:30:00.000Z'')]"

definition get_service_by_id :: "request \<Rightarrow> string \<Rightarrow> response \<Rightarrow> response" where
  "get_service_by_id req id_param res =
     res_json (Obj [
       (''message'', Str ''Service retrieved successfully''),
       (''data'', service id_param)]) res"

text \<open>\<^verbatim>\<open>router.get('/category/:category')\<close>: the \<^verbatim>\<open>servicesByCategory\<close> object literal, then the response.\<close>

definition servicesByCategory :: jsval where
  "servicesByCategory =
     Obj [
       (''development'', Arr [
         Obj [
           (''id'', Num (IntN 1)),
           (''name'', Str ''Custom Software Development''),
           (''description'', Str ''Tailored software solutions designed to meet your specific business requirements.''),
           (''price'', Str ''Starting from $5,000''),
           (''category'', Str ''Development'')]]),
       (''data'', Arr [
         Obj [
           (''id'', Num (IntN 2)),
           (''name'', Str ''Database Management''),
           (''description'', Str ''Comprehensive database solutions with advanced analytics.''),
           (''price'', Str ''Starting from $3,000''),
           (''category'', Str ''Data'')]]),
       (''integration'', Arr [
         Obj [
           (''id'', Num (IntN 3)),
           (''name'', Str ''System Integration''),
           (''description'', Str ''Seamless integration of existing systems and third-party applications.''),
           (''price'', Str ''Starting from $4,000''),
           (''category'', Str ''Integration'')]]),
       (''security'', Arr [
         Obj [
           (''id'', Num (IntN 4)),
           (''name'', Str ''User Management Systems''),
           (''description'', Str ''Comprehensive user management and access control systems.''),
           (''price'', Str ''Starting from $2,500''),
           (''category'', Str ''Security'')],
         Obj [
           (''id'', Num (IntN 6)),
           (''name'', Str ''Security Solutions''),
           (''description'', Str ''Enterprise-grade security solutions with encryption.''),
           (''price'', Str ''Starting from $4,500''),
           (''category'', Str ''Security'')]]),
       (''analytics'', Arr [
         Obj [
           (''id'', Num (IntN 5)),
           (''name'', Str ''Analytics & Reporting''),
           (''description'', Str ''Advanced analytics and real-time reporting solutions.''),
           (''price'', Str ''Starting from $3,500''),
           (''category'', Str ''Analytics'')]])]"

definition get_services_by_category :: "request \<Rightarrow> string \<Rightarrow> response \<Rightarrow> response" where
  "get_services_by_category req category res =
     res_json (Obj [
       (''message'', Str ''Services retrieved successfully''),
       (''data'', js_or (js_get servicesByCategory (toLowerCase category)) (Arr []))]) res"

text \<open>
  The router tries its routes in the order of registration: \<^verbatim>\<open>/test\<close>, \<^verbatim>\<open>/\<close>, \<^verbatim>\<open>/:id\<close>,
  \<^verbatim>\<open>/category/:category\<close>. Literal segments match without regard to case (the router is
  created with the default options), a parameter matches one non-empty segment, and a
  \<^verbatim>\<open>HEAD\<close> request is served by the \<^verbatim>\<open>GET\<close> route. \<open>None\<close> is \<^verbatim>\<open>next()\<close>: no route matched.
\<close>

datatype services_route = RouteTest | RouteList | RouteById string | RouteByCategory string

definition services_match :: "request \<Rightarrow> services_route option" where
  "services_match req =
     (if req_method req \<noteq> ''GET'' \<and> req_method req \<noteq> ''HEAD'' then None
      else case path req of
          [] \<Rightarrow> Some RouteList
        | [s] \<Rightarrow> if toLowerCase s = ''test'' then Some RouteTest else Some (RouteById s)
        | [c, s] \<Rightarrow> if toLowerCase c = ''category'' then Some (RouteByCategory s) else None
        | _ \<Rightarrow> None)"

definition services_router :: "env \<Rightarrow> request \<Rightarrow> response \<Rightarrow> response option" where
  "services_router e req res =
     (case services_match req of
        None \<Rightarrow> None
      | Some RouteTest \<Rightarrow> Some (get_services_test e req res)
      | Some RouteList \<Rightarrow> Some (get_services e req res)
      | Some (RouteById id_param) \<Rightarrow> Some (get_service_by_id req id_param res)
      | Some (RouteByCategory category) \<Rightarrow> Some (get_services_by_category req category res))"

section \<open>The server: middleware chain and handlers\<close>

subsection \<open>Before the limiters\<close>

text \<open>
  The first two stages are \<^verbatim>\<open>helmet\<close> and \<^verbatim>\<open>cors\<close>. \<^verbatim>\<open>helmet\<close> sets headers and always
  passes the request on. \<^verbatim>\<open>cors\<close>, with the options the server gives it (no
  \<^verbatim>\<open>preflightContinue\<close>), answers every \<^verbatim>\<open>OPTIONS\<close> request itself with status 204 and no
  body, and passes every other request on. The headers that the two libraries set (the
  hardening headers, \<^verbatim>\<open>Access-Control-*\<close>, \<^verbatim>\<open>Vary\<close>) are left out: \<open>headers\<close> of a response
  holds what the server's own code and the handlers set. \<open>Some r\<close> is the answer to a
  preflight request; \<open>None\<close> passes the request on.
\<close>

definition cors_preflight :: "request \<Rightarrow> response \<Rightarrow> response option" where
  "cors_preflight req res =
     (if req_method req = ''OPTIONS''
      then Some (res_setHeader ''Content-Length'' ''0'' (res_status 204 res))
      else None)"

subsection \<open>Rate limiting\<close>

text \<open>
  The options object the server passes to \<^verbatim>\<open>rateLimit\<close>. \<open>skip\<close> defaults to the function
  that is always false when the options do not give one.
\<close>

record limiter_options =
  windowMs :: nat
  max_hits :: nat
  message :: jsval
  skip :: "request \<Rightarrow> bool"

definition aiPlatforms :: "string list" where
  "aiPlatforms = [''openai.com'', ''anthropic.com'', ''google.com'', ''microsoft.com'']"

definition header_truthy :: "string option \<Rightarrow> bool" where
  "header_truthy h = (case h of None \<Rightarrow> False | Some v \<Rightarrow> v \<noteq> [])"

definition ai_skip :: "request \<Rightarrow> bool" where
  "ai_skip req =
     list_ex (\<lambda>platform.
        (case req_headers req ''user-agent'' of
           None \<Rightarrow> False
         | Some ua \<Rightarrow> str_includes ua platform)
        \<or> header_truthy (req_headers req ''x-ai-platform'')) aiPlatforms"

definition aiLimiter :: limiter_options where
  "aiLimiter = \<lparr>
     windowMs = 15 * 60 * 1000,
     max_hits = 2000,
     message = Obj [
       (''error'', Str ''AI Platform rate limit exceeded''),
       (''message'', Str ''Please try again later''),
       (''code'', Str ''AI_RATE_LIMIT_EXCEEDED''),
       (''retryAfter'', Str ''15 minutes'')],
     skip = ai_skip\<rparr>"

definition standardLimiter :: limiter_options where
  "standardLimiter = \<lparr>
     windowMs = 15 * 60 * 1000,
     max_hits = 1000,
     message = Obj [
       (''error'', Str ''Rate limit exceeded''),
       (''message'', Str ''Please try again later''),
       (''code'', Str ''RATE_LIMIT_EXCEEDED''),
       (''retryAfter'', Str ''15 minutes'')],
     skip = (\<lambda>req. False)\<rparr>"

type_synonym hit_store = "string \<Rightarrow> (nat \<times> nat) option"

text \<open>
  Modelled from the spec: the counter store of the limiter engine (the engine is the
  function \<^verbatim>\<open>rateLimit\<close> that the server imports and configures; it is not under src/). The
  spec describes the store as a map from client identity to the count of the client and the
  end of its window, where the counter is reset when the window has expired.
\<close>

definition increment :: "nat \<Rightarrow> nat \<Rightarrow> hit_store \<Rightarrow> string \<Rightarrow> nat \<times> hit_store" where
  "increment window now st key =
     (case st key of
        None \<Rightarrow> (1, st(key \<mapsto> (1, now + window)))
      | Some (hits, resetTime) \<Rightarrow>
          if now < resetTime then (hits + 1, st(key \<mapsto> (hits + 1, resetTime)))
          else (1, st(key \<mapsto> (1, now + window))))"

text \<open>
  Modelled from the spec: the middleware that the limiter engine returns for an options
  object. A request that the limiter exempts (\<open>skip\<close>) is passed on and is not counted;
  any other request is counted for its client, and the request that takes the count above
  the ceiling is answered at once with status 429 and the configured message. The
  \<^verbatim>\<open>RateLimit-*\<close> headers of the engine are left out.
\<close>

definition rateLimit ::
  "limiter_options \<Rightarrow> nat \<Rightarrow> hit_store \<Rightarrow> request \<Rightarrow> response \<Rightarrow> response option \<times> hit_store" where
  "rateLimit opts now st req res =
     (if skip opts req then (None, st)
      else case increment (windowMs opts) now st (ip req) of
        (totalHits, st') \<Rightarrow>
          if totalHits > max_hits opts then (Some (res_json (message opts) (res_status 429 res)), st')
          else (None, st'))"

text \<open>
  \<^verbatim>\<open>app.use(prefix, ...)\<close> applies to a request whose path starts with the segments of the
  prefix, compared without regard to case.
\<close>

definition mounted_at :: "string list \<Rightarrow> request \<Rightarrow> bool" where
  "mounted_at prefix req = (map toLowerCase (take (length prefix) (path req)) = prefix)"

record app_state =
  ai_hits :: hit_store
  standard_hits :: hit_store

text \<open>
  \<^verbatim>\<open>app.use('/api/ai', aiLimiter); app.use('/api', standardLimiter);\<close> in this order. \<open>Some r\<close>
  is the response of the limiter that rejected the request; \<open>None\<close> passes it on.
\<close>

definition rate_limiting ::
  "env \<Rightarrow> app_state \<Rightarrow> request \<Rightarrow> response \<Rightarrow> response option \<times> app_state" where
  "rate_limiting e st req res =
     (case (if mounted_at [''api'', ''ai''] req
            then rateLimit aiLimiter (dateNow e 0) (ai_hits st) req res
            else (None, ai_hits st)) of
        (Some r, s1) \<Rightarrow> (Some r, st\<lparr>ai_hits := s1\<rparr>)
      | (None, s1) \<Rightarrow>
          (case (if mounted_at [''api''] req
                 then rateLimit standardLimiter (dateNow e 1) (standard_hits st) req res
                 else (None, standard_hits st)) of
             (r2, s2) \<Rightarrow> (r2, \<lparr>ai_hits = s1, standard_hits = s2\<rparr>)))"

subsection \<open>Request tagging and response headers\<close>

definition generateRequestId :: "env \<Rightarrow> string" where
  "generateRequestId e = substr (random36 e 0) 2 9 @ ''-'' @ toString_radix 36 (dateNow e 3)"

text \<open>
  The request logging middleware: \<^verbatim>\<open>req.headers['x-request-id'] || generateRequestId()\<close>.
  A header that is present with the empty string as its value is falsy.
\<close>

definition request_tagging :: "env \<Rightarrow> request \<Rightarrow> request" where
  "request_tagging e req =
     req\<lparr>requestId := Str (if header_truthy (req_headers req ''x-request-id'')
                            then the (req_headers req ''x-request-id'')
                            else generateRequestId e),
         startTime := Num (IntN (int (dateNow e 2)))\<rparr>"

text \<open>
  The headers middleware. \<^verbatim>\<open>res.setHeader\<close> throws a \<^verbatim>\<open>TypeError\<close> for a value that is
  \<^verbatim>\<open>undefined\<close>; the headers set before it stay on the response.
\<close>

definition invalid_header_value :: "string \<Rightarrow> js_error" where
  "invalid_header_value k = \<lparr>
     e_message = Str (''Invalid value '' @ [CHR 0x22] @ ''undefined'' @ [CHR 0x22]
                      @ '' for header '' @ [CHR 0x22] @ k @ [CHR 0x22]),
     e_name = Str ''TypeError'',
     e_stack = Undefined,
     e_status = None,
     e_enumerable = [(''code'', Str ''ERR_HTTP_INVALID_HEADER_VALUE'')]\<rparr>"

definition api_headers :: "request \<Rightarrow> response \<Rightarrow> js_error \<times> response + response" where
  "api_headers req res =
     (let res1 = res_set [
            (''X-API-Version'', ''2.0.0''),
            (''X-API-Platform'', ''Maijjd-Intelligent-System''),
            (''X-Content-Type-Options'', ''nosniff''),
            (''X-Frame-Options'', ''DENY''),
            (''X-XSS-Protection'', ''1; mode=block'')] res
      in case requestId req of
           Str rid \<Rightarrow>
             Inr (res_set [
               (''X-Request-ID'', rid),
               (''X-AI-Compatible'', ''true''),
               (''X-Data-Format'', ''JSON''),
               (''X-Response-Schema'', ''https://api.maijjd.com/schemas'')] res1)
         | _ \<Rightarrow> Inl (invalid_header_value ''X-Request-ID'', res1))"

subsection \<open>The analysis endpoint\<close>

definition supportedAnalysisTypes :: "string list" where
  "supportedAnalysisTypes =
     [''performance'', ''security'', ''optimization'', ''usage'', ''compatibility'', ''scalability'']"

text \<open>\<^verbatim>\<open>xs.includes(v)\<close> on an array of strings: \<open>v\<close> must be one of the strings.\<close>

definition array_includes :: "string list \<Rightarrow> jsval \<Rightarrow> bool" where
  "array_includes xs v = (case v of Str s \<Rightarrow> s \<in> set xs | _ \<Rightarrow> False)"

text \<open>\<^verbatim>\<open>Date.now() - req.startTime\<close>; the start time is a number once the request is tagged.\<close>

definition elapsed :: "nat \<Rightarrow> jsval \<Rightarrow> jsnum" where
  "elapsed now start = (case start of Num (IntN t) \<Rightarrow> IntN (int now - t) | _ \<Rightarrow> NaN)"

text \<open>
  The message of the \<^verbatim>\<open>TypeError\<close> that destructuring \<^verbatim>\<open>undefined\<close> or \<^verbatim>\<open>null\<close> raises; the
  first property of the pattern, \<open>k\<close>, is named in it.
\<close>

definition destructure_message :: "string \<Rightarrow> jsval \<Rightarrow> string" where
  "destructure_message k v =
     ''Cannot destructure property '' @ [CHR 0x27] @ k @ [CHR 0x27] @ '' of ''
     @ [CHR 0x27] @ ''req.body'' @ [CHR 0x27] @ '' as it is ''
     @ (if v = Null then ''null'' else ''undefined'') @ ''.''"

text \<open>
  \<^verbatim>\<open>app.post('/api/ai/software-analysis')\<close>. Destructuring \<^verbatim>\<open>req.body\<close> throws when the
  body is \<^verbatim>\<open>undefined\<close> or \<^verbatim>\<open>null\<close>, and the \<^verbatim>\<open>catch\<close> answers 500. The JSON body parser
  that runs before the handler leaves an object or an array in \<^verbatim>\<open>req.body\<close> (the empty
  object when the request has no JSON body).
\<close>

definition software_analysis :: "env \<Rightarrow> request \<Rightarrow> response \<Rightarrow> response" where
  "software_analysis e req res =
     (if body req = Undefined \<or> body req = Null then
        res_json (Obj [
          (''error'', Str ''Analysis failed''),
          (''message'', Str (destructure_message ''software_id'' (body req))),
          (''requestId'', requestId req)]) (res_status 500 res)
      else
        let software_id = js_get (body req) ''software_id'';
            analysis_type = js_get (body req) ''analysis_type'';
            ai_model = js_get (body req) ''ai_model''
        in if \<not> truthy software_id \<or> \<not> truthy analysis_type
              \<or> \<not> array_includes supportedAnalysisTypes analysis_type then
             res_json (Obj [
               (''error'', Str ''Invalid parameters''),
               (''message'', Str ''Missing required parameters or unsupported analysis type''),
               (''supportedTypes'', Arr (map Str supportedAnalysisTypes)),
               (''required'', Arr [Str ''software_id'', Str ''analysis_type''])]) (res_status 400 res)
           else
             res_json (Obj [
               (''software_id'', software_id),
               (''analysis_type'', analysis_type),
               (''timestamp'', Str (toISOString e (dateNow e 30))),
               (''ai_model'', js_or ai_model (Str ''gpt-4'')),
               (''analysis'', Obj [
                 (''performance_score'', Num (random100 e 0)),
                 (''security_score'', Num (random100 e 1)),
                 (''optimization_potential'', Num (random100 e 2)),
                 (''recommendations'', Arr [
                   Str ''Implement caching for improved performance'',
                   Str ''Add input validation for security'',
                   Str ''Optimize database queries'',
                   Str ''Enable compression for faster responses'']),
                 (''risk_assessment'', Obj [
                   (''level'', Str ''low''),
                   (''factors'', Arr [Str ''performance'', Str ''security'', Str ''scalability'']),
                   (''mitigation_strategies'', Arr [
                     Str ''Regular performance monitoring'',
                     Str ''Security audits'',
                     Str ''Load testing''])])]),
               (''confidence'', Num (DecN 95 2)),
               (''processing_time'', Num (elapsed (dateNow e 31) (startTime req))),
               (''metadata'', Obj [
                 (''ai_platform'',
                    (if header_truthy (req_headers req ''x-ai-platform'')
                     then Str (the (req_headers req ''x-ai-platform''))
                     else Str ''unknown'')),
                 (''request_id'', requestId req),
                 (''analysis_version'', Str ''2.0.0'')])]) res)"

subsection \<open>The other endpoints of the server file\<close>

text \<open>
  \<^verbatim>\<open>res.send(text)\<close> and \<^verbatim>\<open>res.redirect(status, url)\<close>. \<open>sent\<close> holds the value given to
  \<^verbatim>\<open>res.json\<close> or \<^verbatim>\<open>res.send\<close>; \<^verbatim>\<open>res.end()\<close> leaves it \<open>None\<close>. A redirect sets the
  status and the \<^verbatim>\<open>Location\<close> header; the short text that it sends along, which depends
  on what the client accepts, is left out.
\<close>

definition res_send :: "string \<Rightarrow> response \<Rightarrow> response" where
  "res_send s res = res\<lparr>sent := Some (Str s)\<rparr>"

definition res_redirect :: "nat \<Rightarrow> string \<Rightarrow> response \<Rightarrow> response" where
  "res_redirect n url res = res_setHeader ''Location'' url (res_status n res)"

text \<open>\<^verbatim>\<open>app.get('/api/health')\<close>.\<close>

definition api_health :: "env \<Rightarrow> request \<Rightarrow> response \<Rightarrow> response" where
  "api_health e req res =
     res_json (
     Obj [
       (''status'', Str ''OK''),
       (''message'', Str ''Maijjd Intelligent API is running''),
       (''timestamp'', Str (toISOString e (dateNow e 50))),
       (''version'', Str ''2.0.0''),
       (''environment'', Str (case NODE_ENV e of None \<Rightarrow> ''development''
                            | Some v \<Rightarrow> if v = [] then ''development'' else v)),
       (''uptime'', Num (process_uptime e)),
       (''memory'', process_memoryUsage e),
       (''platform'', Obj [
         (''node'', Str (process_version e)),
         (''os'', Str (process_platform e)),
         (''arch'', Str (process_arch e))]),
       (''ai'', Obj [
         (''compatible'', Bool True),
         (''endpoints'', Arr [Str ''/api/ai/integration'', Str ''/api/ai/software-analysis'',
           Str ''/api/ai/performance-optimization'', Str ''/api/ai/security-assessment'']),
         (''dataFormats'', Arr [Str ''JSON'', Str ''XML'']),
         (''authentication'', Str ''JWT Bearer Token''),
         (''rateLimiting'', Str ''AI-optimized'')]),
       (''performance'', Obj [
         (''responseTime'', Str ''optimized''),
         (''compression'', Str ''enabled''),
         (''caching'', Str ''enabled''),
         (''rateLimiting'', Str ''adaptive'')])]) res"

text \<open>\<^verbatim>\<open>app.get('/api/ai/integration')\<close>.\<close>

definition ai_integration :: "request \<Rightarrow> response \<Rightarrow> response" where
  "ai_integration req res =
     res_json (
     Obj [
       (''message'', Str ''AI Integration endpoint available''),
       (''capabilities'', Arr [Str ''Software catalog access'', Str ''User authentication'',
         Str ''Real-time data processing'', Str ''Secure API access'',
         Str ''JSON data format'', Str ''AI-optimized rate limiting'',
         Str ''Enhanced CORS for AI platforms'', Str ''Performance monitoring'',
         Str ''Intelligent automation'', Str ''Machine learning integration'',
         Str ''Natural language processing'', Str ''Predictive analytics'',
         Str ''Automated decision making'', Str ''Intelligent workflow management'',
         Str ''AI-powered optimization'']),
       (''documentation'', Str ''/api-docs''),
       (''health'', Str ''/api/health''),
       (''version'', Str ''2.0.0''),
       (''aiCompatibility'', Obj [
         (''openai'', Bool True),
         (''anthropic'', Bool True),
         (''google'', Bool True),
         (''microsoft'', Bool True),
         (''github'', Bool True),
         (''huggingface'', Bool True),
         (''cohere'', Bool True),
         (''ai21'', Bool True)]),
       (''dataSchemas'', Obj [
         (''software'', Str ''/api/schemas/software''),
         (''users'', Str ''/api/schemas/users''),
         (''services'', Str ''/api/schemas/services''),
         (''ai_models'', Str ''/api/schemas/ai-models''),
         (''automation_workflows'', Str ''/api/schemas/automation-workflows'')]),
       (''intelligentAutomation'', Obj [
         (''enabled'', Bool True),
         (''capabilities'', Arr [Str ''Workflow automation'', Str ''Process optimization'',
           Str ''Predictive maintenance'', Str ''Intelligent routing'',
           Str ''Automated decision making'', Str ''Smart resource allocation'',
           Str ''Dynamic scaling'', Str ''Intelligent monitoring''])])]) res"

text \<open>\<^verbatim>\<open>app.post('/api/ai/automation-workflow')\<close>.\<close>

definition supportedWorkflows :: "string list" where
  "supportedWorkflows =
     [''deployment_automation'', ''monitoring_automation'', ''security_automation'',
      ''performance_optimization'', ''resource_management'', ''incident_response'']"

definition automation_workflow :: "env \<Rightarrow> request \<Rightarrow> response \<Rightarrow> response" where
  "automation_workflow e req res =
     (if body req = Undefined \<or> body req = Null then
        res_json (Obj [
          (''error'', Str ''Workflow creation failed''),
          (''message'', Str (destructure_message ''workflow_type'' (body req))),
          (''requestId'', requestId req)]) (res_status 500 res)
      else
        let workflow_type = js_get (body req) ''workflow_type'';
            parameters = js_get (body req) ''parameters'';
            trigger_conditions = js_get (body req) ''trigger_conditions'';
            ai_guidance = js_get (body req) ''ai_guidance''
        in if \<not> truthy workflow_type \<or> \<not> array_includes supportedWorkflows workflow_type then
             res_json (Obj [
               (''error'', Str ''Invalid workflow type''),
               (''supportedTypes'', Arr (map Str supportedWorkflows))]) (res_status 400 res)
           else
             res_json (Obj [
               (''message'', Str ''Intelligent automation workflow created successfully''),
               (''workflow'',
             Obj [
               (''id'', Str (''workflow_'' @ toString_radix 10 (dateNow e 60))),
               (''type'', workflow_type),
               (''status'', Str ''created''),
               (''created_at'', Str (toISOString e (dateNow e 61))),
               (''ai_guidance'', js_or ai_guidance (Str ''standard'')),
               (''trigger_conditions'', js_or trigger_conditions (Obj [
                 (''schedule'', Str ''daily''),
                 (''threshold'', Str ''80%''),
                 (''events'', Arr [Str ''error'', Str ''warning'', Str ''critical''])])),
               (''steps'', Arr [
                 Obj [
                   (''step'', Num (IntN 1)),
                   (''action'', Str ''analyze_current_state''),
                   (''ai_enhanced'', Bool True),
                   (''parameters'', js_or parameters (Obj []))],
                 Obj [
                   (''step'', Num (IntN 2)),
                   (''action'', Str ''generate_recommendations''),
                   (''ai_enhanced'', Bool True),
                   (''parameters'', Obj [])],
                 Obj [
                   (''step'', Num (IntN 3)),
                   (''action'', Str ''execute_optimization''),
                   (''ai_enhanced'', Bool True),
                   (''parameters'', Obj [])],
                 Obj [
                   (''step'', Num (IntN 4)),
                   (''action'', Str ''monitor_results''),
                   (''ai_enhanced'', Bool True),
                   (''parameters'', Obj [])]]),
               (''metadata'', Obj [
                 (''ai_model'', Str ''gpt-4''),
                 (''confidence'', Num (DecN 92 2)),
                 (''estimated_duration'', Str ''5 minutes''),
                 (''success_rate'', Str ''95%'')])]),
               (''next_steps'',
               Arr [Str ''Review workflow configuration'', Str ''Set execution schedule'',
                 Str ''Configure monitoring alerts'',
                 Str ''Test workflow in staging environment''])]) res)"

text \<open>\<^verbatim>\<open>app.post('/api/ai/performance-optimization')\<close>.\<close>

definition performance_optimization :: "env \<Rightarrow> request \<Rightarrow> response \<Rightarrow> response" where
  "performance_optimization e req res =
     (if body req = Undefined \<or> body req = Null then
        res_json (Obj [
          (''error'', Str ''Optimization analysis failed''),
          (''message'', Str (destructure_message ''system_metrics'' (body req))),
          (''requestId'', requestId req)]) (res_status 500 res)
      else
        let system_metrics = js_get (body req) ''system_metrics'';
            performance_goals = js_get (body req) ''performance_goals'';
            optimization_strategy = js_get (body req) ''optimization_strategy''
        in res_json (
           Obj [
             (''timestamp'', Str (toISOString e (dateNow e 70))),
             (''strategy'', js_or optimization_strategy (Str ''intelligent_adaptive'')),
             (''current_metrics'', js_or system_metrics (Obj [
               (''cpu_usage'', Num (IntN 75)),
               (''memory_usage'', Num (IntN 60)),
               (''response_time'', Num (IntN 250)),
               (''throughput'', Num (IntN 1000))])),
             (''goals'', js_or performance_goals (Obj [
               (''target_cpu'', Num (IntN 50)),
               (''target_memory'', Num (IntN 40)),
               (''target_response_time'', Num (IntN 150)),
               (''target_throughput'', Num (IntN 1500))])),
             (''ai_recommendations'', Arr [
               Obj [
                 (''category'', Str ''resource_optimization''),
                 (''action'', Str ''Implement intelligent caching''),
                 (''expected_improvement'', Str ''25% faster response times''),
                 (''confidence'', Num (DecN 89 2)),
                 (''implementation_priority'', Str ''high'')],
               Obj [
                 (''category'', Str ''algorithm_optimization''),
                 (''action'', Str ''Optimize database queries with AI analysis''),
                 (''expected_improvement'', Str ''30% reduced database load''),
                 (''confidence'', Num (DecN 92 2)),
                 (''implementation_priority'', Str ''high'')],
               Obj [
                 (''category'', Str ''infrastructure_optimization''),
                 (''action'', Str ''Enable auto-scaling based on AI predictions''),
                 (''expected_improvement'', Str ''40% better resource utilization''),
                 (''confidence'', Num (DecN 85 2)),
                 (''implementation_priority'', Str ''medium'')]]),
             (''implementation_plan'', Obj [
               (''phase_1'', Arr [Str ''Implement caching'', Str ''Optimize queries'']),
               (''phase_2'', Arr [Str ''Enable auto-scaling'', Str ''Add monitoring'']),
               (''phase_3'', Arr [Str ''Advanced AI optimization'', Str ''Predictive scaling'']),
               (''estimated_timeline'', Str ''2-4 weeks'')]),
             (''monitoring'', Obj [
               (''metrics_to_track'', Arr [Str ''response_time'', Str ''throughput'', Str ''resource_usage'']),
               (''alert_thresholds'', Obj [
                 (''response_time'', Num (IntN 200)),
                 (''cpu_usage'', Num (IntN 80)),
                 (''memory_usage'', Num (IntN 85))]),
               (''ai_anomaly_detection'', Bool True)])]) res)"

text \<open>
  \<^verbatim>\<open>app.post('/api/ai/security-assessment')\<close>. \<open>random_number e 0\<close> is
  \<^verbatim>\<open>Math.floor(Math.random() * 40) + 10\<close>.
\<close>

definition security_assessment :: "env \<Rightarrow> request \<Rightarrow> response \<Rightarrow> response" where
  "security_assessment e req res =
     (if body req = Undefined \<or> body req = Null then
        res_json (Obj [
          (''error'', Str ''Security assessment failed''),
          (''message'', Str (destructure_message ''system_config'' (body req))),
          (''requestId'', requestId req)]) (res_status 500 res)
      else
        let ai_enhanced_scanning = js_get (body req) ''ai_enhanced_scanning''
        in res_json (
           Obj [
             (''timestamp'', Str (toISOString e (dateNow e 80))),
             (''scan_type'', Str (if truthy ai_enhanced_scanning then ''ai_enhanced'' else ''standard'')),
             (''overall_risk_score'', Num (random_number e 0)),
             (''vulnerabilities'', Arr [
               Obj [
                 (''id'', Str ''VULN-001''),
                 (''severity'', Str ''medium''),
                 (''category'', Str ''authentication''),
                 (''description'', Str ''Weak password policy enforcement''),
                 (''ai_analysis'', Obj [
                   (''risk_level'', Str ''medium''),
                   (''exploitation_difficulty'', Str ''low''),
                   (''business_impact'', Str ''high''),
                   (''ai_confidence'', Num (DecN 94 2))]),
                 (''remediation'', Obj [
                   (''action'', Str ''Implement strong password policy''),
                   (''priority'', Str ''high''),
                   (''estimated_effort'', Str ''2 hours''),
                   (''ai_suggested_tools'', Arr [Str ''password-validator'', Str ''policy-enforcer''])])],
               Obj [
                 (''id'', Str ''VULN-002''),
                 (''severity'', Str ''low''),
                 (''category'', Str ''input_validation''),
                 (''description'', Str ''Missing input sanitization in contact form''),
                 (''ai_analysis'', Obj [
                   (''risk_level'', Str ''low''),
                   (''exploitation_difficulty'', Str ''medium''),
                   (''business_impact'', Str ''medium''),
                   (''ai_confidence'', Num (DecN 87 2))]),
                 (''remediation'', Obj [
                   (''action'', Str ''Add input validation and sanitization''),
                   (''priority'', Str ''medium''),
                   (''estimated_effort'', Str ''4 hours''),
                   (''ai_suggested_tools'', Arr [Str ''validator.js'', Str ''sanitize-html''])])]]),
             (''compliance_status'', Obj [
               (''gdpr'', Str ''compliant''),
               (''sox'', Str ''compliant''),
               (''hipaa'', Str ''not_applicable''),
               (''pci_dss'', Str ''compliant'')]),
             (''ai_recommendations'', Arr [Str ''Implement AI-powered threat detection'',
               Str ''Enable automated security monitoring'',
               Str ''Add behavioral analysis for anomaly detection'',
               Str ''Implement intelligent access control'']),
             (''next_steps'', Arr [Str ''Address high-priority vulnerabilities'',
               Str ''Implement AI security monitoring'',
               Str ''Schedule follow-up assessment'', Str ''Update security policies''])]) res)"

text \<open>
  \<^verbatim>\<open>app.get('/api/ai/intelligent-monitoring')\<close>. \<open>random_number e 1\<close> to \<open>random_number e 4\<close>
  are \<^verbatim>\<open>Math.random() * 30 + 20\<close>, \<^verbatim>\<open>Math.random() * 25 + 15\<close>, \<^verbatim>\<open>Math.random() * 50 + 100\<close> and
  \<^verbatim>\<open>Math.random() * 200 + 800\<close>.
\<close>

definition intelligent_monitoring :: "env \<Rightarrow> request \<Rightarrow> response \<Rightarrow> response" where
  "intelligent_monitoring e req res =
     res_json (
     Obj [
       (''timestamp'', Str (toISOString e (dateNow e 90))),
       (''system_status'', Str ''healthy''),
       (''ai_monitoring'', Obj [
         (''enabled'', Bool True),
         (''models'', Arr [Str ''anomaly_detection'', Str ''predictive_analytics'',
           Str ''intelligent_alerting'']),
         (''active_alerts'', Num (IntN 0)),
         (''predicted_issues'', Arr []),
         (''optimization_suggestions'', Arr [Str ''System performance is optimal'',
           Str ''Resource utilization is efficient'', Str ''No immediate actions required''])]),
       (''performance_metrics'', Obj [
         (''cpu_usage'', Num (random_number e 1)),
         (''memory_usage'', Num (random_number e 2)),
         (''response_time'', Num (random_number e 3)),
         (''throughput'', Num (random_number e 4))]),
       (''intelligent_features'', Obj [
         (''auto_scaling'', Str ''enabled''),
         (''predictive_maintenance'', Str ''active''),
         (''intelligent_routing'', Str ''enabled''),
         (''ai_optimization'', Str ''active'')])]) res"

text \<open>\<^verbatim>\<open>app.get('/api/ai/models')\<close>.\<close>

definition ai_models :: "request \<Rightarrow> response \<Rightarrow> response" where
  "ai_models req res =
     res_json (
     Obj [
       (''models'', Arr [
         Obj [
           (''id'', Str ''gpt-4''),
           (''name'', Str ''GPT-4''),
           (''provider'', Str ''OpenAI''),
           (''capabilities'', Arr [Str ''text_generation'', Str ''code_analysis'',
             Str ''optimization_suggestions'']),
           (''status'', Str ''active''),
           (''performance'', Str ''excellent'')],
         Obj [
           (''id'', Str ''claude-3''),
           (''name'', Str ''Claude 3''),
           (''provider'', Str ''Anthropic''),
           (''capabilities'', Arr [Str ''text_generation'', Str ''security_analysis'',
             Str ''compliance_checking'']),
           (''status'', Str ''active''),
           (''performance'', Str ''excellent'')],
         Obj [
           (''id'', Str ''gemini-pro''),
           (''name'', Str ''Gemini Pro''),
           (''provider'', Str ''Google''),
           (''capabilities'', Arr [Str ''multimodal_analysis'', Str ''performance_optimization'',
             Str ''scalability_planning'']),
           (''status'', Str ''active''),
           (''performance'', Str ''good'')]]),
       (''integration_status'', Str ''fully_integrated''),
       (''api_endpoints'', Arr [Str ''/api/ai/software-analysis'', Str ''/api/ai/automation-workflow'',
         Str ''/api/ai/performance-optimization'', Str ''/api/ai/security-assessment''])]) res"

text \<open>
  The root endpoints \<^verbatim>\<open>app.head('/')\<close> and \<^verbatim>\<open>app.get('/')\<close>, the plain health endpoint
  \<^verbatim>\<open>app.get('/health')\<close>, and the two aliases \<^verbatim>\<open>app.post('/refresh')\<close> and
  \<^verbatim>\<open>app.post('/auth/refresh')\<close>.
\<close>

definition root_head :: "request \<Rightarrow> response \<Rightarrow> response" where
  "root_head req res = res_status 200 res"

definition root_get :: "request \<Rightarrow> response \<Rightarrow> response" where
  "root_get req res = res_send ''OK'' (res_status 200 res)"

definition plain_health :: "env \<Rightarrow> request \<Rightarrow> response \<Rightarrow> response" where
  "plain_health e req res =
     res_json (
     Obj [
       (''status'', Str ''OK''),
       (''message'', Str ''Health endpoint''),
       (''timestamp'', Str (toISOString e (dateNow e 100))),
       (''version'', Str ''2.0.0''),
       (''environment'', Str (case NODE_ENV e of None \<Rightarrow> ''development''
                            | Some v \<Rightarrow> if v = [] then ''development'' else v))]) res"

definition refresh_alias :: "request \<Rightarrow> response \<Rightarrow> response" where
  "refresh_alias req res = res_redirect 307 ''/api/auth/refresh'' res"

subsection \<open>The error middleware and the 404 handler\<close>

definition status_ge_500 :: "nat option \<Rightarrow> bool" where
  "status_ge_500 s = (case s of None \<Rightarrow> False | Some n \<Rightarrow> n \<ge> 500)"

definition status_or_500 :: "nat option \<Rightarrow> nat" where
  "status_or_500 s = (case s of None \<Rightarrow> 500 | Some n \<Rightarrow> if n = 0 then 500 else n)"

text \<open>
  The error middleware. Its last statement is \<^verbatim>\<open>res.status(err.status || 500).json(..)\<close>.
  Sending the response throws a \<^verbatim>\<open>RangeError\<close> when the status is not a code from 100 to
  999; the middleware then has sent nothing, and the exception leaves it (\<open>Inl\<close>).
\<close>

definition invalid_status_code :: "nat \<Rightarrow> js_error" where
  "invalid_status_code n = \<lparr>
     e_message = Str (''Invalid status code: '' @ toString_radix 10 n),
     e_name = Str ''RangeError'',
     e_stack = Undefined,
     e_status = None,
     e_enumerable = [(''code'', Str ''ERR_HTTP_INVALID_STATUS_CODE'')]\<rparr>"

definition error_handler :: "env \<Rightarrow> js_error \<Rightarrow> request \<Rightarrow> response \<Rightarrow> js_error + response" where
  "error_handler e err req res =
     (let errorResponse = [
            (''error'', Str ''Internal Server Error''),
            (''message'', if NODE_ENV e = Some ''production'' then Str ''Something went wrong''
                          else e_message err),
            (''code'', Str ''INTERNAL_ERROR''),
            (''timestamp'', Str (toISOString e (dateNow e 40))),
            (''requestId'', requestId req),
            (''ai'', Obj [
              (''retryable'', Bool (status_ge_500 (e_status err))),
              (''suggestedAction'',
                 Str (if status_ge_500 (e_status err) then ''retry_later'' else ''check_input'')),
              (''errorType'', js_or (e_name err) (Str ''UnknownError''))])];
          errorResponse' =
            (if NODE_ENV e = Some ''development''
             then errorResponse @ [(''stack'', e_stack err), (''details'', Obj (e_enumerable err))]
             else errorResponse);
          code = status_or_500 (e_status err)
      in if code < 100 \<or> 999 < code then Inl (invalid_status_code code)
         else Inr (res_json (Obj errorResponse') (res_status code res)))"

definition not_found :: "request \<Rightarrow> response \<Rightarrow> response" where
  "not_found req res =
     res_json (Obj [
       (''error'', Str ''Not Found''),
       (''message'', Str (''Route '' @ originalUrl req @ '' not found'')),
       (''code'', Str ''ROUTE_NOT_FOUND''),
       (''requestId'', requestId req),
       (''availableRoutes'', Arr [
         Str ''/api/health'',
         Str ''/api/software'',
         Str ''/api/auth'',
         Str ''/api/services'',
         Str ''/api/contact'',
         Str ''/api/users'',
         Str ''/api/ai/integration'',
         Str ''/api/ai/software-analysis'',
         Str ''/api/ai/performance-optimization'',
         Str ''/api/ai/security-assessment'',
         Str ''/api-docs'']),
       (''ai'', Obj [
         (''suggestions'', Arr [
           Str ''Check the API documentation at /api-docs'',
           Str ''Verify the endpoint URL'',
           Str ''Ensure proper authentication'',
           Str ''Check request method (GET, POST, etc.)''])])]) (res_status 404 res)"

subsection \<open>Dispatch\<close>

text \<open>
  The routes in the order in which the server registers them. A literal path matches
  without regard to case, and a \<^verbatim>\<open>GET\<close> route also serves \<^verbatim>\<open>HEAD\<close>. The interactive
  documentation under \<^verbatim>\<open>/api-docs\<close> and the routers for \<^verbatim>\<open>/api/auth\<close>, \<^verbatim>\<open>/api/software\<close>,
  \<^verbatim>\<open>/api/contact\<close>, \<^verbatim>\<open>/api/users\<close>, \<^verbatim>\<open>/api/ai\<close> and \<^verbatim>\<open>/api/payments\<close> are not part of the
  two source files; \<open>served_elsewhere\<close> holds for a request that reaches one of them, and
  \<open>route\<close> is \<open>None\<close> for it. The services router sees the path below its mount point; a
  request that it passes on matches no later router and ends in the 404 handler.
\<close>

definition is_get :: "request \<Rightarrow> bool" where
  "is_get req = (req_method req = ''GET'' \<or> req_method req = ''HEAD'')"

definition served_elsewhere :: "request \<Rightarrow> bool" where
  "served_elsewhere req =
     (mounted_at [''api-docs''] req
      \<or> mounted_at [''api'', ''auth''] req \<or> mounted_at [''api'', ''software''] req
      \<or> mounted_at [''api'', ''contact''] req \<or> mounted_at [''api'', ''users''] req
      \<or> mounted_at [''api'', ''ai''] req \<or> mounted_at [''api'', ''payments''] req)"

definition route :: "env \<Rightarrow> request \<Rightarrow> response \<Rightarrow> response option" where
  "route e req res =
     (if is_get req \<and> map toLowerCase (path req) = [''api'', ''health'']
      then Some (api_health e req res)
      else if is_get req \<and> map toLowerCase (path req) = [''api'', ''ai'', ''integration'']
      then Some (ai_integration req res)
      else if req_method req = ''POST'' \<and> map toLowerCase (path req) = [''api'', ''ai'', ''software-analysis'']
      then Some (software_analysis e req res)
      else if req_method req = ''POST''
              \<and> map toLowerCase (path req) = [''api'', ''ai'', ''automation-workflow'']
      then Some (automation_workflow e req res)
      else if req_method req = ''POST''
              \<and> map toLowerCase (path req) = [''api'', ''ai'', ''performance-optimization'']
      then Some (performance_optimization e req res)
      else if req_method req = ''POST''
              \<and> map toLowerCase (path req) = [''api'', ''ai'', ''security-assessment'']
      then Some (security_assessment e req res)
      else if is_get req
              \<and> map toLowerCase (path req) = [''api'', ''ai'', ''intelligent-monitoring'']
      then Some (intelligent_monitoring e req res)
      else if is_get req \<and> map toLowerCase (path req) = [''api'', ''ai'', ''models'']
      then Some (ai_models req res)
      else if req_method req = ''HEAD'' \<and> path req = [] then Some (root_head req res)
      else if req_method req = ''GET'' \<and> path req = [] then Some (root_get req res)
      else if is_get req \<and> map toLowerCase (path req) = [''health'']
      then Some (plain_health e req res)
      else if req_method req = ''POST'' \<and> map toLowerCase (path req) = [''refresh'']
      then Some (refresh_alias req res)
      else if req_method req = ''POST'' \<and> map toLowerCase (path req) = [''auth'', ''refresh'']
      then Some (refresh_alias req res)
      else if served_elsewhere req then None
      else if mounted_at [''api'', ''services''] req then
        (case services_router e (req\<lparr>path := drop 2 (path req)\<rparr>) res of
           Some r \<Rightarrow> Some r
         | None \<Rightarrow> Some (not_found req res))
      else Some (not_found req res))"

text \<open>
  The chain for one request, in the order of the server file: \<^verbatim>\<open>cors\<close>, the limiters, the
  body parsers, tagging, the headers, the route. (The compression stage between the
  limiters and the body parsers passes every request on.) A failure of the body parsers
  goes to the error middleware before the request is tagged and before the headers are
  set. The result is \<open>None\<close> when the request is answered outside the code embedded here:
  by a handler that is not in the two source files, or by the default error handler of
  the framework when the error middleware itself throws.
\<close>

definition app :: "env \<Rightarrow> app_state \<Rightarrow> request \<Rightarrow> response option \<times> app_state" where
  "app e st req =
     (case cors_preflight req new_response of
        Some r \<Rightarrow> (Some r, st)
      | None \<Rightarrow>
     (case rate_limiting e st req new_response of
        (Some r, st') \<Rightarrow> (Some r, st')
      | (None, st') \<Rightarrow>
          (case body_error req of
             Some err \<Rightarrow>
               (case error_handler e err req new_response of
                  Inl err' \<Rightarrow> (None, st')
                | Inr r \<Rightarrow> (Some r, st'))
           | None \<Rightarrow>
               (let req' = request_tagging e req in
                case api_headers req' new_response of
                  Inl (err, res) \<Rightarrow>
                    (case error_handler e err req' res of
                       Inl err' \<Rightarrow> (None, st')
                     | Inr r \<Rightarrow> (Some r, st'))
                | Inr res \<Rightarrow> (route e req' res, st')))))"

section \<open>Reading a response\<close>

definition response_body :: "response \<Rightarrow> jsval" where
  "response_body res = (case sent res of Some v \<Rightarrow> v | None \<Rightarrow> Undefined)"

definition arr_elems :: "jsval \<Rightarrow> jsval list" where
  "arr_elems v = (case v of Arr xs \<Rightarrow> xs | _ \<Rightarrow> [])"

definition has_own :: "jsval \<Rightarrow> string \<Rightarrow> bool" where
  "has_own v k = (case v of Obj ps \<Rightarrow> k \<in> fst ` set ps | _ \<Rightarrow> False)"

definition response_header :: "response option \<Rightarrow> string \<Rightarrow> string option" where
  "response_header r k = (case r of None \<Rightarrow> None | Some res \<Rightarrow> res_getHeader res k)"

text \<open>A body with the \<open>id\<close> of its \<open>data\<close> object taken out, to compare two bodies apart from it.\<close>

fun drop_prop :: "string \<Rightarrow> jsval \<Rightarrow> jsval" where
  "drop_prop k (Obj ps) = Obj (filter (\<lambda>p. fst p \<noteq> k) ps)"
| "drop_prop k v = v"

fun map_prop :: "string \<Rightarrow> (jsval \<Rightarrow> jsval) \<Rightarrow> jsval \<Rightarrow> jsval" where
  "map_prop k f (Obj ps) = Obj (map (\<lambda>p. if fst p = k then (fst p, f (snd p)) else p) ps)"
| "map_prop k f v = v"

definition without_data_id :: "jsval \<Rightarrow> jsval" where
  "without_data_id b = map_prop ''data'' (drop_prop ''id'') b"

section \<open>Sample inputs\<close>

definition sample_env :: env where
  "sample_env = \<lparr>
     NODE_ENV = Some ''production'',
     dateNow = (\<lambda>k. 1000 + k),
     toISOString = (\<lambda>t. ''2024-01-01T00:00:00.000Z''),
     random36 = (\<lambda>k. ''0.4fzyo82mvyr''),
     random100 = (\<lambda>k. DecN 4237 2),
     random_number = (\<lambda>k. IntN 25),
     process_uptime = DecN 12345 2,
     process_memoryUsage = Obj [(''rss'', Num (IntN 50000000))],
     process_version = ''v18.19.0'',
     process_platform = ''linux'',
     process_arch = ''x64''\<rparr>"

definition fresh_state :: app_state where
  "fresh_state = \<lparr>ai_hits = Map.empty, standard_hits = Map.empty\<rparr>"

definition sample_request :: "string \<Rightarrow> string \<Rightarrow> string list \<Rightarrow> request" where
  "sample_request m url segs = \<lparr>
     req_method = m,
     originalUrl = url,
     path = segs,
     req_headers = Map.empty,
     ip = ''203.0.113.7'',
     body_error = None,
     body = Obj [],
     requestId = Undefined,
     startTime = Undefined\<rparr>"

text \<open>A request to an AI endpoint that names its platform in the \<^verbatim>\<open>x-ai-platform\<close> header.\<close>

definition ai_platform_request :: request where
  "ai_platform_request =
     (sample_request ''GET'' ''/api/ai/models'' [''api'', ''ai'', ''models''])
       \<lparr>req_headers := [''x-ai-platform'' \<mapsto> ''openai'']\<rparr>"

text \<open>A request that brings its own identifier, from a client that has used up its window.\<close>

definition inbound_id_request :: request where
  "inbound_id_request =
     (sample_request ''GET'' ''/api/services'' [''api'', ''services''])
       \<lparr>req_headers := [''x-request-id'' \<mapsto> ''req-42'']\<rparr>"

definition exhausted_state :: app_state where
  "exhausted_state =
     \<lparr>ai_hits = Map.empty, standard_hits = [''203.0.113.7'' \<mapsto> (1000, 900000)]\<rparr>"


section \<open>Properties\<close>

subsection \<open>Auxiliary facts\<close>

lemma set_foldl_js_set_add: "set (foldl js_set_add s xs) = set s \<union> set xs"
  by (induction xs arbitrary: s) (auto simp: js_set_add_def)

lemma distinct_foldl_js_set_add: "distinct s \<Longrightarrow> distinct (foldl js_set_add s xs)"
  by (induction xs arbitrary: s) (auto simp: js_set_add_def)

lemma distinct_js_new_Set: "distinct (js_new_Set xs)"
  by (simp add: js_new_Set_def distinct_foldl_js_set_add)

lemma set_js_new_Set: "set (js_new_Set xs) = set xs"
  by (simp add: js_new_Set_def set_foldl_js_set_add)

lemma length_services: "length services = 10"
  by (simp add: services_def)

lemma response_body_res_json [simp]: "response_body (res_json v res) = v"
  by (simp add: response_body_def res_json_def)

lemma status_res_json [simp]: "status (res_json v res) = status res"
  by (simp add: res_json_def)

lemma status_res_status [simp]: "status (res_status n res) = n"
  by (simp add: res_status_def)

lemma status_res_setHeader [simp]: "status (res_setHeader k v res) = status res"
  by (simp add: res_setHeader_def)

lemma status_res_set [simp]: "status (res_set kvs res) = status res"
  unfolding res_set_def by (induction kvs arbitrary: res) (auto)

subsection \<open>The catalog listing\<close>

text \<open>
  C6. \<^verbatim>\<open>GET /api/services\<close> answers 200; the \<open>data\<close> of its body has exactly ten entries,
  \<open>metadata.total_services\<close> is 10, and \<open>metadata.categories\<close> has no category twice. This
  holds whatever the clock and the random generator give.
\<close>

theorem get_services_ten_entries:
  "status (get_services e req new_response) = 200
   \<and> length (arr_elems (js_get (response_body (get_services e req new_response)) ''data'')) = 10
   \<and> js_get (js_get (response_body (get_services e req new_response)) ''metadata'')
        ''total_services'' = Num (IntN 10)
   \<and> distinct (arr_elems (js_get (js_get (response_body (get_services e req new_response))
        ''metadata'') ''categories''))"
  by (simp add: get_services_def new_response_def arr_elems_def length_services
      distinct_js_new_Set)

text \<open>
  C7. Two calls of \<^verbatim>\<open>GET /api/services\<close>, at any two times and with any two draws of the
  random generator, give bodies with the same set of entry identifiers and the same set of
  categories.
\<close>

theorem get_services_idempotent:
  "set (map (\<lambda>s. js_get s ''id'')
         (arr_elems (js_get (response_body (get_services e1 req1 res1)) ''data'')))
   = set (map (\<lambda>s. js_get s ''id'')
         (arr_elems (js_get (response_body (get_services e2 req2 res2)) ''data'')))
   \<and> set (arr_elems (js_get (js_get (response_body (get_services e1 req1 res1)) ''metadata'')
         ''categories''))
   = set (arr_elems (js_get (js_get (response_body (get_services e2 req2 res2)) ''metadata'')
         ''categories''))"
  by (simp add: get_services_def arr_elems_def)

subsection \<open>Response headers\<close>

lemma map_of_lowered_update:
  "map_of (map (\<lambda>(k', v'). (toLowerCase k', v'))
       (filter (\<lambda>(k', v'). toLowerCase k' \<noteq> toLowerCase k) hs @ [(k, v)])) x
   = (if x = toLowerCase k then Some v
      else map_of (map (\<lambda>(k', v'). (toLowerCase k', v')) hs) x)"
  by (induction hs) (auto simp: map_of_append)

lemma res_getHeader_res_setHeader:
  "res_getHeader (res_setHeader k v res) k'
   = (if toLowerCase k' = toLowerCase k then Some v else res_getHeader res k')"
  by (simp add: res_getHeader_def res_setHeader_def map_of_lowered_update
      del: map_append map_of_append)

lemma res_getHeader_res_json [simp]: "res_getHeader (res_json v res) k = res_getHeader res k"
  by (simp add: res_getHeader_def res_json_def)

lemma res_getHeader_res_status [simp]: "res_getHeader (res_status n res) k = res_getHeader res k"
  by (simp add: res_getHeader_def res_status_def)

lemma res_getHeader_new_response [simp]: "res_getHeader new_response k = None"
  by (simp add: res_getHeader_def new_response_def)

lemma header_truthy_None [simp]: "header_truthy None = False"
  by (simp add: header_truthy_def)

lemma get_services_keeps_request_id:
  "res_getHeader (get_services e req res) ''X-Request-ID'' = res_getHeader res ''X-Request-ID''"
  by (simp add: get_services_def res_set_def res_getHeader_res_setHeader
      toLowerCase_def lower_char_def)

lemma get_services_cache_control:
  "res_getHeader (get_services e req res) ''Cache-Control''
   = Some ''no-cache, no-store, must-revalidate, private''"
  by (simp add: get_services_def res_set_def res_getHeader_res_setHeader
      toLowerCase_def lower_char_def)

lemma get_service_by_id_headers [simp]:
  "res_getHeader (get_service_by_id req s res) k = res_getHeader res k"
  by (simp add: get_service_by_id_def)

lemma get_services_by_category_headers [simp]:
  "res_getHeader (get_services_by_category req c res) k = res_getHeader res k"
  by (simp add: get_services_by_category_def)

lemma services_router_by_id:
  "services_match req = Some (RouteById s) \<Longrightarrow>
   services_router e req res = Some (get_service_by_id req s res)"
  by (simp add: services_router_def)

lemma services_router_keeps_request_id:
  "services_router e req res = Some r \<Longrightarrow>
   res_getHeader r ''X-Request-ID'' = res_getHeader res ''X-Request-ID''"
  by (auto simp: services_router_def get_services_keeps_request_id get_services_test_def
      split: option.splits services_route.splits)

lemma services_router_no_requestId:
  "services_router e req res = Some r \<Longrightarrow> js_get (response_body r) ''requestId'' = Undefined"
  by (auto simp: services_router_def get_services_def get_services_test_def
      get_service_by_id_def get_services_by_category_def object_prototype_get_def
      object_prototype_methods_def
      split: option.splits services_route.splits)

lemma software_analysis_keeps_request_id:
  "res_getHeader (software_analysis e req res) ''X-Request-ID'' = res_getHeader res ''X-Request-ID''"
  by (simp add: software_analysis_def Let_def)

lemma software_analysis_requestId:
  "js_get (response_body (software_analysis e req res)) ''requestId'' = Undefined
   \<or> js_get (response_body (software_analysis e req res)) ''requestId'' = requestId req"
  by (simp add: software_analysis_def Let_def object_prototype_get_def
      object_prototype_methods_def)

lemma not_found_request_id:
  "res_getHeader (not_found req res) ''X-Request-ID'' = res_getHeader res ''X-Request-ID''
   \<and> js_get (response_body (not_found req res)) ''requestId'' = requestId req"
  by (simp add: not_found_def)

lemma res_getHeader_res_send [simp]: "res_getHeader (res_send s res) k = res_getHeader res k"
  by (simp add: res_getHeader_def res_send_def)

lemma js_get_Undefined [simp]: "js_get Undefined k = Undefined"
  by simp

lemma response_body_unsent: "sent res = None \<Longrightarrow> response_body res = Undefined"
  by (simp add: response_body_def)

lemma sent_res_setHeader [simp]: "sent (res_setHeader k v res) = sent res"
  by (simp add: res_setHeader_def)

lemma sent_res_status [simp]: "sent (res_status n res) = sent res"
  by (simp add: res_status_def)

lemma sent_res_set [simp]: "sent (res_set kvs res) = sent res"
  unfolding res_set_def by (induction kvs arbitrary: res) auto

text \<open>
  Each handler of the server file leaves the \<^verbatim>\<open>X-Request-ID\<close> header as it finds it, and
  the \<open>requestId\<close> of the body that it sends, if the body has one, is that of the request.
\<close>

lemma api_health_request_id:
  "res_getHeader (api_health e req res) ''X-Request-ID'' = res_getHeader res ''X-Request-ID''
   \<and> js_get (response_body (api_health e req res)) ''requestId'' = Undefined"
  by (simp add: api_health_def object_prototype_get_def object_prototype_methods_def)

lemma ai_integration_request_id:
  "res_getHeader (ai_integration req res) ''X-Request-ID'' = res_getHeader res ''X-Request-ID''
   \<and> js_get (response_body (ai_integration req res)) ''requestId'' = Undefined"
  by (simp add: ai_integration_def object_prototype_get_def object_prototype_methods_def)

lemma automation_workflow_request_id:
  "res_getHeader (automation_workflow e req res) ''X-Request-ID''
     = res_getHeader res ''X-Request-ID''
   \<and> (js_get (response_body (automation_workflow e req res)) ''requestId'' = Undefined
        \<or> js_get (response_body (automation_workflow e req res)) ''requestId'' = requestId req)"
  by (simp add: automation_workflow_def Let_def object_prototype_get_def
      object_prototype_methods_def)

lemma performance_optimization_request_id:
  "res_getHeader (performance_optimization e req res) ''X-Request-ID''
     = res_getHeader res ''X-Request-ID''
   \<and> (js_get (response_body (performance_optimization e req res)) ''requestId'' = Undefined
        \<or> js_get (response_body (performance_optimization e req res)) ''requestId''
            = requestId req)"
  by (simp add: performance_optimization_def Let_def object_prototype_get_def
      object_prototype_methods_def)

lemma security_assessment_request_id:
  "res_getHeader (security_assessment e req res) ''X-Request-ID''
     = res_getHeader res ''X-Request-ID''
   \<and> (js_get (response_body (security_assessment e req res)) ''requestId'' = Undefined
        \<or> js_get (response_body (security_assessment e req res)) ''requestId'' = requestId req)"
  by (simp add: security_assessment_def Let_def object_prototype_get_def
      object_prototype_methods_def)

lemma intelligent_monitoring_request_id:
  "res_getHeader (intelligent_monitoring e req res) ''X-Request-ID''
     = res_getHeader res ''X-Request-ID''
   \<and> js_get (response_body (intelligent_monitoring e req res)) ''requestId'' = Undefined"
  by (simp add: intelligent_monitoring_def object_prototype_get_def
      object_prototype_methods_def)

lemma ai_models_request_id:
  "res_getHeader (ai_models req res) ''X-Request-ID'' = res_getHeader res ''X-Request-ID''
   \<and> js_get (response_body (ai_models req res)) ''requestId'' = Undefined"
  by (simp add: ai_models_def object_prototype_get_def object_prototype_methods_def)

lemma plain_health_request_id:
  "res_getHeader (plain_health e req res) ''X-Request-ID'' = res_getHeader res ''X-Request-ID''
   \<and> js_get (response_body (plain_health e req res)) ''requestId'' = Undefined"
  by (simp add: plain_health_def object_prototype_get_def object_prototype_methods_def)

lemma root_head_request_id:
  "sent res = None \<Longrightarrow>
   res_getHeader (root_head req res) ''X-Request-ID'' = res_getHeader res ''X-Request-ID''
   \<and> js_get (response_body (root_head req res)) ''requestId'' = Undefined"
  by (simp add: root_head_def response_body_unsent)

lemma root_get_request_id:
  "res_getHeader (root_get req res) ''X-Request-ID'' = res_getHeader res ''X-Request-ID''
   \<and> js_get (response_body (root_get req res)) ''requestId'' = Undefined"
  by (simp add: root_get_def res_send_def response_body_def res_getHeader_def res_status_def)

lemma refresh_alias_request_id:
  "sent res = None \<Longrightarrow>
   res_getHeader (refresh_alias req res) ''X-Request-ID'' = res_getHeader res ''X-Request-ID''
   \<and> js_get (response_body (refresh_alias req res)) ''requestId'' = Undefined"
  by (simp add: refresh_alias_def res_redirect_def res_getHeader_res_setHeader
      response_body_unsent toLowerCase_def lower_char_def)

lemma generateRequestId_nonempty: "generateRequestId e \<noteq> []"
  by (simp add: generateRequestId_def)

lemma api_headers_tagged:
  "api_headers (request_tagging e req) new_response = Inr res \<Longrightarrow>
   res_getHeader res ''X-Request-ID''
     = Some (if header_truthy (req_headers req ''x-request-id'')
             then the (req_headers req ''x-request-id'') else generateRequestId e)"
  by (auto simp: api_headers_def request_tagging_def Let_def res_set_def
      res_getHeader_res_setHeader toLowerCase_def lower_char_def)

lemma api_headers_tagged_Inr:
  "\<exists>res. api_headers (request_tagging e req) new_response = Inr res"
  by (simp add: api_headers_def request_tagging_def Let_def)

lemma api_headers_unsent:
  "api_headers req new_response = Inr res \<Longrightarrow> sent res = None"
  by (auto simp: api_headers_def Let_def new_response_def split: jsval.splits)

lemma api_headers_no_cache_control:
  "api_headers req new_response = Inr res \<Longrightarrow> res_getHeader res ''Cache-Control'' = None"
  by (auto simp: api_headers_def Let_def res_set_def res_getHeader_res_setHeader
      toLowerCase_def lower_char_def split: jsval.splits)

text \<open>
  A request that is not a preflight request, that the limiters let pass and whose body the
  parsers accept is tagged, gets the headers, and is routed.
\<close>

lemma app_route:
  assumes "req_method req \<noteq> ''OPTIONS''"
    and "fst (rate_limiting e st req new_response) = None"
    and "body_error req = None"
  obtains res where "api_headers (request_tagging e req) new_response = Inr res"
    and "fst (app e st req) = route e (request_tagging e req) res"
proof -
  obtain st' where lim: "rate_limiting e st req new_response = (None, st')"
    using assms(2) by (cases "rate_limiting e st req new_response") simp
  obtain res where hdr: "api_headers (request_tagging e req) new_response = Inr res"
    using api_headers_tagged_Inr by blast
  from lim hdr assms(1,3) have "fst (app e st req) = route e (request_tagging e req) res"
    by (simp add: app_def cors_preflight_def Let_def)
  with hdr that show ?thesis by blast
qed

lemma route_cases:
  assumes "route e req res = Some r"
  shows "r = api_health e req res \<or> r = ai_integration req res
     \<or> r = software_analysis e req res \<or> r = automation_workflow e req res
     \<or> r = performance_optimization e req res \<or> r = security_assessment e req res
     \<or> r = intelligent_monitoring e req res \<or> r = ai_models req res
     \<or> r = root_head req res \<or> r = root_get req res \<or> r = plain_health e req res
     \<or> r = refresh_alias req res
     \<or> services_router e (req\<lparr>path := drop 2 (path req)\<rparr>) res = Some r
     \<or> r = not_found req res"
  using assms by (auto simp: route_def split: if_splits option.splits)

lemma route_request_id:
  assumes "route e req res = Some r" and "sent res = None"
  shows "res_getHeader r ''X-Request-ID'' = res_getHeader res ''X-Request-ID''
     \<and> (js_get (response_body r) ''requestId'' = Undefined
          \<or> js_get (response_body r) ''requestId'' = requestId req)"
proof -
  consider (server) "r = api_health e req res \<or> r = ai_integration req res
       \<or> r = automation_workflow e req res \<or> r = performance_optimization e req res
       \<or> r = security_assessment e req res \<or> r = intelligent_monitoring e req res
       \<or> r = ai_models req res \<or> r = plain_health e req res \<or> r = root_get req res"
    | (analysis) "r = software_analysis e req res"
    | (unsent) "r = root_head req res \<or> r = refresh_alias req res"
    | (services) "services_router e (req\<lparr>path := drop 2 (path req)\<rparr>) res = Some r"
    | (missing) "r = not_found req res"
    using route_cases [OF assms(1)] by blast
  then show ?thesis
  proof cases
    case server
    then show ?thesis
      using api_health_request_id ai_integration_request_id automation_workflow_request_id
        performance_optimization_request_id security_assessment_request_id
        intelligent_monitoring_request_id ai_models_request_id plain_health_request_id
        root_get_request_id
      by metis
  next
    case analysis
    then show ?thesis
      using software_analysis_keeps_request_id software_analysis_requestId by simp
  next
    case unsent
    then show ?thesis
      using root_head_request_id [OF assms(2)] refresh_alias_request_id [OF assms(2)] by metis
  next
    case services
    then show ?thesis
      using services_router_keeps_request_id services_router_no_requestId by blast
  next
    case missing
    then show ?thesis using not_found_request_id by simp
  qed
qed

lemma fresh_state_passes:
  "fst (rate_limiting e fresh_state (sample_request m url (''api'' # ''services'' # segs))
      new_response) = None"
  by (simp add: rate_limiting_def fresh_state_def sample_request_def mounted_at_def
      toLowerCase_def lower_char_def rateLimit_def standardLimiter_def increment_def)

lemma sample_request_not_options:
  "req_method (sample_request ''GET'' url segs) \<noteq> ''OPTIONS''"
  by (simp add: sample_request_def)

lemma sample_request_parsed: "body_error (sample_request m url segs) = None"
  by (simp add: sample_request_def)

lemma route_sample_services:
  "route e (request_tagging e (sample_request ''GET'' url (''api'' # ''services'' # segs))) res
   = (case services_router e
        ((request_tagging e (sample_request ''GET'' url (''api'' # ''services'' # segs)))
           \<lparr>path := segs\<rparr>) res of
        Some r \<Rightarrow> Some r
      | None \<Rightarrow> Some (not_found
          (request_tagging e (sample_request ''GET'' url (''api'' # ''services'' # segs))) res))"
  by (simp add: route_def is_get_def request_tagging_def sample_request_def
      served_elsewhere_def mounted_at_def toLowerCase_def lower_char_def
      split: option.splits)

subsection \<open>Rate limiting of AI-platform traffic\<close>

text \<open>
  C1. Claimed: a request identified as AI-platform traffic is neither counted nor rejected
  by the standard limiter. The server does otherwise. The \<^verbatim>\<open>skip\<close> function that recognises
  AI-platform traffic is given to the AI limiter, so it is the AI limiter that leaves such a
  request uncounted, and the standard limiter, which has no \<^verbatim>\<open>skip\<close>, counts it like any
  other request below \<^verbatim>\<open>/api\<close>. For the request \<^verbatim>\<open>GET /api/ai/models\<close> with the header
  \<^verbatim>\<open>x-ai-platform: openai\<close>: from a fresh state the standard limiter records one hit and the
  AI limiter none; and when the client already has 1000 hits in its window, the standard
  limiter answers 429 with its own message.
\<close>

theorem ai_tagged_request_counted_by_standard_limiter:
  "ai_skip ai_platform_request
   \<and> rate_limiting e fresh_state ai_platform_request new_response
       = (None, \<lparr>ai_hits = Map.empty,
                 standard_hits = [''203.0.113.7'' \<mapsto> (1, dateNow e 1 + 900000)]\<rparr>)
   \<and> rate_limiting e
         \<lparr>ai_hits = Map.empty,
          standard_hits = [''203.0.113.7'' \<mapsto> (1000, dateNow e 1 + 1)]\<rparr>
         ai_platform_request new_response
       = (Some (res_json (message standardLimiter) (res_status 429 new_response)),
          \<lparr>ai_hits = Map.empty,
           standard_hits = [''203.0.113.7'' \<mapsto> (1001, dateNow e 1 + 1)]\<rparr>)"
  by (simp add: ai_skip_def ai_platform_request_def sample_request_def aiPlatforms_def
      header_truthy_def rate_limiting_def fresh_state_def mounted_at_def toLowerCase_def
      lower_char_def rateLimit_def aiLimiter_def standardLimiter_def increment_def)

subsection \<open>The request identifier\<close>

text \<open>
  C2, as amended. A request reaches the tagging middleware when it is not an \<^verbatim>\<open>OPTIONS\<close>
  request (those are answered by \<^verbatim>\<open>cors\<close>), both rate limiters let it pass, and the body
  parsers accept its body. Every response that a handler defined in the server file or in
  the services router gives to such a request (the endpoints of the server file, the
  routes of the services router, the 404 handler) carries the request identifier in its
  \<^verbatim>\<open>X-Request-ID\<close> header: the value of the inbound \<^verbatim>\<open>x-request-id\<close> header when a non-empty
  one was supplied, and otherwise a generated identifier, which is a non-empty string. A
  body that has a \<open>requestId\<close> field carries the same identifier there.
\<close>

theorem response_carries_request_id:
  assumes "req_method req \<noteq> ''OPTIONS''"
    and "fst (rate_limiting e st req new_response) = None"
    and "body_error req = None"
    and "fst (app e st req) = Some r"
  shows "(\<forall>v. req_headers req ''x-request-id'' = Some v \<and> v \<noteq> []
            \<longrightarrow> res_getHeader r ''X-Request-ID'' = Some v)
     \<and> (\<not> header_truthy (req_headers req ''x-request-id'')
            \<longrightarrow> res_getHeader r ''X-Request-ID'' = Some (generateRequestId e))
     \<and> generateRequestId e \<noteq> []
     \<and> (js_get (response_body r) ''requestId'' = Undefined
          \<or> map_option Str (res_getHeader r ''X-Request-ID'')
              = Some (js_get (response_body r) ''requestId''))"
proof -
  let ?rid = "if header_truthy (req_headers req ''x-request-id'')
              then the (req_headers req ''x-request-id'') else generateRequestId e"
  obtain res where hdr: "api_headers (request_tagging e req) new_response = Inr res"
    and "fst (app e st req) = route e (request_tagging e req) res"
    using app_route [OF assms(1,2,3)] by blast
  with assms(4) have rt: "route e (request_tagging e req) res = Some r"
    by simp
  have tagged: "requestId (request_tagging e req) = Str ?rid"
    by (simp add: request_tagging_def)
  have h0: "res_getHeader res ''X-Request-ID'' = Some ?rid"
    using api_headers_tagged [OF hdr] .
  from route_request_id [OF rt api_headers_unsent [OF hdr]] h0 tagged
  have h1: "res_getHeader r ''X-Request-ID'' = Some ?rid"
    and b1: "js_get (response_body r) ''requestId'' = Undefined
          \<or> js_get (response_body r) ''requestId'' = Str ?rid"
    by simp_all
  from h1 have "\<forall>v. req_headers req ''x-request-id'' = Some v \<and> v \<noteq> []
            \<longrightarrow> res_getHeader r ''X-Request-ID'' = Some v"
    by (simp add: header_truthy_def)
  moreover from h1 have "\<not> header_truthy (req_headers req ''x-request-id'')
            \<longrightarrow> res_getHeader r ''X-Request-ID'' = Some (generateRequestId e)"
    by simp
  moreover from h1 b1 have "js_get (response_body r) ''requestId'' = Undefined
          \<or> map_option Str (res_getHeader r ''X-Request-ID'')
              = Some (js_get (response_body r) ''requestId'')"
    by auto
  ultimately show ?thesis using generateRequestId_nonempty by blast
qed

text \<open>
  The theorem at \<^verbatim>\<open>GET /api/services\<close> with \<^verbatim>\<open>x-request-id: req-42\<close>, from a fresh state: the
  request reaches the tagging middleware and the response header is \<^verbatim>\<open>req-42\<close>.
\<close>

theorem response_carries_request_id_witness:
  "req_method inbound_id_request \<noteq> ''OPTIONS''
   \<and> fst (rate_limiting sample_env fresh_state inbound_id_request new_response) = None
   \<and> body_error inbound_id_request = None
   \<and> req_headers inbound_id_request ''x-request-id'' = Some ''req-42''
   \<and> response_header (fst (app sample_env fresh_state inbound_id_request)) ''X-Request-ID''
       = Some ''req-42''"
proof -
  have pass: "fst (rate_limiting sample_env fresh_state inbound_id_request new_response) = None"
    by (simp add: rate_limiting_def fresh_state_def inbound_id_request_def sample_request_def
        mounted_at_def toLowerCase_def lower_char_def rateLimit_def standardLimiter_def
        increment_def)
  have m: "req_method inbound_id_request \<noteq> ''OPTIONS''"
    and b: "body_error inbound_id_request = None"
    by (simp_all add: inbound_id_request_def sample_request_def)
  obtain res where "fst (app sample_env fresh_state inbound_id_request)
      = route sample_env (request_tagging sample_env inbound_id_request) res"
    using app_route [OF m pass b] by blast
  moreover have "route sample_env (request_tagging sample_env inbound_id_request) res
      = Some (get_services sample_env
           ((request_tagging sample_env inbound_id_request)\<lparr>path := []\<rparr>) res)"
    by (simp add: route_def is_get_def request_tagging_def inbound_id_request_def
        sample_request_def served_elsewhere_def mounted_at_def toLowerCase_def lower_char_def
        services_router_def services_match_def)
  ultimately obtain r where r: "fst (app sample_env fresh_state inbound_id_request) = Some r"
    by simp
  have h: "req_headers inbound_id_request ''x-request-id'' = Some ''req-42''"
    by (simp add: inbound_id_request_def)
  from response_carries_request_id [OF m pass b r] h
  have "res_getHeader r ''X-Request-ID'' = Some ''req-42''" by simp
  with r h pass m b show ?thesis by (simp add: response_header_def)
qed

text \<open>
  C2 as it is written fails: the limiters run before the request is tagged, so the 429
  response of a limiter has no \<^verbatim>\<open>X-Request-ID\<close> header and no \<open>requestId\<close> in its body, also
  when the request brought an identifier. Here the client has 1000 hits in its window and
  sends \<^verbatim>\<open>GET /api/services\<close> with \<^verbatim>\<open>x-request-id: req-42\<close>.
\<close>

theorem rate_limited_response_has_no_request_id:
  "req_headers inbound_id_request ''x-request-id'' = Some ''req-42''
   \<and> fst (app sample_env exhausted_state inbound_id_request)
       = Some \<lparr>status = 429, headers = [],
               sent = Some (Obj [
                 (''error'', Str ''Rate limit exceeded''),
                 (''message'', Str ''Please try again later''),
                 (''code'', Str ''RATE_LIMIT_EXCEEDED''),
                 (''retryAfter'', Str ''15 minutes'')])\<rparr>"
proof -
  have "rate_limiting sample_env exhausted_state inbound_id_request new_response
    = (Some \<lparr>status = 429, headers = [],
         sent = Some (Obj [
           (''error'', Str ''Rate limit exceeded''),
           (''message'', Str ''Please try again later''),
           (''code'', Str ''RATE_LIMIT_EXCEEDED''),
           (''retryAfter'', Str ''15 minutes'')])\<rparr>,
       \<lparr>ai_hits = Map.empty, standard_hits = [''203.0.113.7'' \<mapsto> (1001, 900000)]\<rparr>)"
    by (simp add: rate_limiting_def exhausted_state_def inbound_id_request_def
        sample_request_def sample_env_def mounted_at_def toLowerCase_def lower_char_def
        rateLimit_def standardLimiter_def increment_def new_response_def res_json_def
        res_status_def)
  then show ?thesis
    by (simp add: app_def cors_preflight_def inbound_id_request_def sample_request_def)
qed

subsection \<open>The analysis endpoint\<close>

text \<open>
  C3. When the body of a \<^verbatim>\<open>POST /api/ai/software-analysis\<close> request has no recognised
  \<open>analysis_type\<close> (the field is missing, or its value is not one of the six supported
  strings), the handler answers 400, with the error \<^verbatim>\<open>Invalid parameters\<close> and a
  \<open>supportedTypes\<close> field that lists the six types. The body is what the JSON body parser
  leaves in \<^verbatim>\<open>req.body\<close>, an object or an array, so it is neither \<^verbatim>\<open>undefined\<close> nor \<^verbatim>\<open>null\<close>.
\<close>

theorem software_analysis_rejects_unrecognized:
  assumes "body req \<noteq> Undefined" and "body req \<noteq> Null"
    and "\<not> array_includes supportedAnalysisTypes (js_get (body req) ''analysis_type'')"
  shows "status (software_analysis e req res) = 400
     \<and> js_get (response_body (software_analysis e req res)) ''supportedTypes''
         = Arr [Str ''performance'', Str ''security'', Str ''optimization'', Str ''usage'',
                Str ''compatibility'', Str ''scalability'']
     \<and> js_get (response_body (software_analysis e req res)) ''error'' = Str ''Invalid parameters''"
  using assms by (simp add: software_analysis_def Let_def supportedAnalysisTypes_def)

text \<open>The theorem at the empty body \<^verbatim>\<open>{}\<close>.\<close>

theorem software_analysis_rejects_unrecognized_witness:
  "body (sample_request ''POST'' ''/api/ai/software-analysis''
       [''api'', ''ai'', ''software-analysis'']) = Obj []
   \<and> status (software_analysis sample_env (sample_request ''POST'' ''/api/ai/software-analysis''
       [''api'', ''ai'', ''software-analysis'']) new_response) = 400
   \<and> js_get (response_body (software_analysis sample_env
         (sample_request ''POST'' ''/api/ai/software-analysis''
            [''api'', ''ai'', ''software-analysis'']) new_response)) ''error''
       = Str ''Invalid parameters''"
  using software_analysis_rejects_unrecognized
    [of "sample_request ''POST'' ''/api/ai/software-analysis''
           [''api'', ''ai'', ''software-analysis'']" sample_env new_response]
  by (simp add: sample_request_def array_includes_def object_prototype_get_def
      object_prototype_methods_def)

subsection \<open>The services router\<close>

text \<open>
  \<^verbatim>\<open>parseInt\<close> at some segments: text after the digits is ignored, white space of more than
  one byte is dropped (here U+00A0 and U+2028), and a magnitude beyond the doubles is an
  infinity.
\<close>

lemma parseInt_samples:
  "parseInt ''42abc'' = IntN 42"
  "parseInt ''abc'' = NaN"
  "parseInt ([CHR 0xC2, CHR 0xA0] @ ''42'') = IntN 42"
  "parseInt ([CHR 0x20, CHR 0xE2, CHR 0x80, CHR 0xA8, CHR 0x09] @ ''-0x1F'') = IntN (- 31)"
  "to_double False (10 ^ 308) = IntN (10 ^ 308)"
  "to_double False (10 ^ 309) = Infinity"
  "to_double True (10 ^ 309) = NegInfinity"
  by (simp_all add: parseInt_def js_whitespace_def unicode_whitespace_def digit_value_def
      digits_value_def Let_def to_double_def)

text \<open>
  C4. A \<^verbatim>\<open>GET\<close> request that the router gives to its \<^verbatim>\<open>/:id\<close> route with a segment that
  \<^verbatim>\<open>parseInt\<close> cannot read does not fail: the response has status 200 and no error, its
  \<open>data\<close> is the mock service object, and the \<open>id\<close> of that object is \<open>NaN\<close> (which is
  written as \<open>null\<close> when the body is serialised).
\<close>

theorem get_by_id_unparsable:
  assumes "services_match req = Some (RouteById s)" and "parseInt s = NaN"
  shows "\<exists>r. services_router e req new_response = Some r
     \<and> status r = 200
     \<and> js_get (js_get (response_body r) ''data'') ''id'' = Num NaN
     \<and> js_get (js_get (wire (response_body r)) ''data'') ''id'' = Null
     \<and> js_get (js_get (response_body r) ''data'') ''name'' = Str ''Custom Software Development''
     \<and> \<not> has_own (response_body r) ''error''"
  using assms
  by (simp add: services_router_by_id get_service_by_id_def service_def new_response_def
      has_own_def)

text \<open>The theorem at \<^verbatim>\<open>GET /api/services/abc\<close>.\<close>

theorem get_by_id_unparsable_witness:
  "services_match (sample_request ''GET'' ''/api/services/abc'' [''abc''])
     = Some (RouteById ''abc'')
   \<and> parseInt ''abc'' = NaN
   \<and> map_option status
       (services_router sample_env (sample_request ''GET'' ''/api/services/abc'' [''abc''])
          new_response) = Some 200"
proof -
  have m: "services_match (sample_request ''GET'' ''/api/services/abc'' [''abc''])
     = Some (RouteById ''abc'')"
    by (simp add: services_match_def sample_request_def toLowerCase_def lower_char_def)
  have p: "parseInt ''abc'' = NaN"
    by (simp add: parseInt_def js_whitespace_def unicode_whitespace_def digit_value_def
        Let_def)
  from get_by_id_unparsable [OF m p, of sample_env] m p show ?thesis
    by auto
qed

text \<open>
  The category lookup, away from the names that an object inherits from
  \<^verbatim>\<open>Object.prototype\<close>: the \<open>data\<close> of the body is a list, every entry of it has a category
  that equals the requested one when case is ignored, and the list is empty when the
  requested category, in lower case, is not a key of the mapping.
\<close>

lemma category_lookup_own_or_empty:
  assumes "toLowerCase c \<notin> set object_prototype_methods" and "toLowerCase c \<noteq> ''__proto__''"
  shows "\<exists>entries.
       js_get (response_body (get_services_by_category req c res)) ''data'' = Arr entries
     \<and> (\<forall>x \<in> set entries. \<exists>k. js_get x ''category'' = Str k \<and> toLowerCase k = toLowerCase c)
     \<and> (toLowerCase c \<notin> {''development'', ''data'', ''integration'', ''security'', ''analytics''}
          \<longrightarrow> entries = [])"
proof -
  have low: "toLowerCase ''Development'' = ''development''" "toLowerCase ''Data'' = ''data''"
    "toLowerCase ''Integration'' = ''integration''" "toLowerCase ''Security'' = ''security''"
    "toLowerCase ''Analytics'' = ''analytics''"
    by (simp_all add: toLowerCase_def lower_char_def)
  from assms show ?thesis
    by (auto simp: get_services_by_category_def servicesByCategory_def js_or_def
        object_prototype_get_def low)
qed

text \<open>
  C5. Claimed: for a category that is not in the mapping the handler returns an empty
  collection. The lookup \<^verbatim>\<open>servicesByCategory[category.toLowerCase()]\<close> also finds what the
  object inherits from \<^verbatim>\<open>Object.prototype\<close>, and such a value is truthy, so \<^verbatim>\<open>|| []\<close> does not
  replace it. For \<^verbatim>\<open>GET /api/services/category/constructor\<close> the \<open>data\<close> of the body is the
  function \<^verbatim>\<open>Object\<close>, which the serialised body leaves out; for
  \<^verbatim>\<open>GET /api/services/category/__proto__\<close> it is \<^verbatim>\<open>Object.prototype\<close>, serialised as an empty
  object. Neither is an empty collection. The status is 200 in both cases.
\<close>

theorem category_lookup_reaches_object_prototype:
  "services_router e
      (sample_request ''GET'' ''/api/services/category/constructor''
         [''category'', ''constructor'']) new_response
   = Some \<lparr>status = 200, headers = [],
         sent = Some (Obj [(''message'', Str ''Services retrieved successfully''),
                           (''data'', Fun ''constructor'')])\<rparr>
   \<and> wire (Obj [(''message'', Str ''Services retrieved successfully''),
                (''data'', Fun ''constructor'')])
      = Obj [(''message'', Str ''Services retrieved successfully'')]
   \<and> services_router e
      (sample_request ''GET'' ''/api/services/category/__proto__''
         [''category'', ''__proto__'']) new_response
   = Some \<lparr>status = 200, headers = [],
         sent = Some (Obj [(''message'', Str ''Services retrieved successfully''),
                           (''data'', ObjectPrototype)])\<rparr>
   \<and> wire (Obj [(''message'', Str ''Services retrieved successfully''),
                (''data'', ObjectPrototype)])
      = Obj [(''message'', Str ''Services retrieved successfully''), (''data'', Obj [])]"
  by (simp add: services_router_def services_match_def sample_request_def toLowerCase_def
      lower_char_def get_services_by_category_def servicesByCategory_def
      object_prototype_get_def object_prototype_methods_def js_or_def new_response_def
      res_json_def)

text \<open>
  C9. Claimed: every response of the three catalog-read endpoints carries
  \<^verbatim>\<open>Cache-Control: no-cache, no-store, must-revalidate, private\<close>. Only the list handler sets
  it. The responses to \<^verbatim>\<open>GET /api/services/1\<close> and \<^verbatim>\<open>GET /api/services/category/security\<close> have
  no \<^verbatim>\<open>Cache-Control\<close> header at all, while the response to \<^verbatim>\<open>GET /api/services\<close> has the
  value above.
\<close>

theorem cache_control_only_on_listing:
  "fst (app e fresh_state (sample_request ''GET'' ''/api/services/1''
          [''api'', ''services'', ''1''])) \<noteq> None
   \<and> response_header (fst (app e fresh_state (sample_request ''GET'' ''/api/services/1''
          [''api'', ''services'', ''1'']))) ''Cache-Control'' = None
   \<and> fst (app e fresh_state (sample_request ''GET'' ''/api/services/category/security''
          [''api'', ''services'', ''category'', ''security''])) \<noteq> None
   \<and> response_header (fst (app e fresh_state
          (sample_request ''GET'' ''/api/services/category/security''
             [''api'', ''services'', ''category'', ''security'']))) ''Cache-Control'' = None
   \<and> response_header (fst (app e fresh_state (sample_request ''GET'' ''/api/services''
          [''api'', ''services'']))) ''Cache-Control''
      = Some ''no-cache, no-store, must-revalidate, private''"
proof -
  let ?by_id = "sample_request ''GET'' ''/api/services/1'' [''api'', ''services'', ''1'']"
  let ?by_cat = "sample_request ''GET'' ''/api/services/category/security''
      [''api'', ''services'', ''category'', ''security'']"
  let ?list = "sample_request ''GET'' ''/api/services'' [''api'', ''services'']"
  obtain res1 where h1: "api_headers (request_tagging e ?by_id) new_response = Inr res1"
    and a1: "fst (app e fresh_state ?by_id) = route e (request_tagging e ?by_id) res1"
    using app_route [OF sample_request_not_options fresh_state_passes sample_request_parsed]
    by blast
  have "route e (request_tagging e ?by_id) res1
      = Some (get_service_by_id ((request_tagging e ?by_id)\<lparr>path := [''1'']\<rparr>) ''1'' res1)"
    by (simp only: route_sample_services)
      (simp add: services_router_def services_match_def request_tagging_def
        sample_request_def toLowerCase_def lower_char_def)
  with a1 h1 have c1: "fst (app e fresh_state ?by_id) \<noteq> None
      \<and> response_header (fst (app e fresh_state ?by_id)) ''Cache-Control'' = None"
    by (simp add: response_header_def api_headers_no_cache_control)
  obtain res2 where h2: "api_headers (request_tagging e ?by_cat) new_response = Inr res2"
    and a2: "fst (app e fresh_state ?by_cat) = route e (request_tagging e ?by_cat) res2"
    using app_route [OF sample_request_not_options fresh_state_passes sample_request_parsed]
    by blast
  have "route e (request_tagging e ?by_cat) res2
      = Some (get_services_by_category
          ((request_tagging e ?by_cat)\<lparr>path := [''category'', ''security'']\<rparr>)
          ''security'' res2)"
    by (simp only: route_sample_services)
      (simp add: services_router_def services_match_def request_tagging_def
        sample_request_def toLowerCase_def lower_char_def)
  with a2 h2 have c2: "fst (app e fresh_state ?by_cat) \<noteq> None
      \<and> response_header (fst (app e fresh_state ?by_cat)) ''Cache-Control'' = None"
    by (simp add: response_header_def api_headers_no_cache_control)
  obtain res3 where a3: "fst (app e fresh_state ?list) = route e (request_tagging e ?list) res3"
    using app_route [OF sample_request_not_options fresh_state_passes sample_request_parsed]
    by blast
  have "route e (request_tagging e ?list) res3
      = Some (get_services e ((request_tagging e ?list)\<lparr>path := []\<rparr>) res3)"
    by (simp only: route_sample_services)
      (simp add: services_router_def services_match_def request_tagging_def
        sample_request_def)
  with a3 have c3: "response_header (fst (app e fresh_state ?list)) ''Cache-Control''
      = Some ''no-cache, no-store, must-revalidate, private''"
    by (simp add: response_header_def get_services_cache_control)
  from c1 c2 c3 show ?thesis by blast
qed

text \<open>
  C10. For two requests that the router gives to its \<^verbatim>\<open>/:id\<close> route, with the segments
  \<open>s1\<close> and \<open>s2\<close>, at any two times: the responses have the same status and headers, and
  their bodies are equal once the \<open>id\<close> of \<open>data\<close> is taken out; that \<open>id\<close> is the result of
  \<^verbatim>\<open>parseInt\<close> on the segment (a number, \<open>NaN\<close> or an infinity). The \<open>name\<close> in \<open>data\<close> is always that of the mock object, which
  is not the name of the catalog entry with identifier 2: the body for the segment \<open>2\<close> does
  not describe catalog entry 2.
\<close>

theorem by_id_bodies_differ_in_id_only:
  assumes "services_match req1 = Some (RouteById s1)"
    and "services_match req2 = Some (RouteById s2)"
  shows "\<exists>r1 r2. services_router e1 req1 res = Some r1 \<and> services_router e2 req2 res = Some r2
     \<and> status r1 = status r2 \<and> headers r1 = headers r2
     \<and> without_data_id (response_body r1) = without_data_id (response_body r2)
     \<and> js_get (js_get (response_body r1) ''data'') ''id'' = Num (parseInt s1)
     \<and> js_get (js_get (response_body r2) ''data'') ''id'' = Num (parseInt s2)
     \<and> (\<forall>entry \<in> set services. js_get entry ''id'' = Num (IntN 2) \<longrightarrow>
           js_get entry ''name'' \<noteq> js_get (js_get (response_body r1) ''data'') ''name'')"
proof -
  have "\<forall>entry \<in> set services. js_get entry ''id'' = Num (IntN 2) \<longrightarrow>
      js_get entry ''name'' \<noteq> Str ''Custom Software Development''"
    by (simp add: services_def)
  with assms show ?thesis
    by (simp add: services_router_by_id get_service_by_id_def service_def without_data_id_def
        res_json_def response_body_def)
qed

text \<open>The theorem at \<^verbatim>\<open>GET /api/services/2\<close> and \<^verbatim>\<open>GET /api/services/abc\<close>.\<close>

theorem by_id_bodies_differ_in_id_only_witness:
  "services_match (sample_request ''GET'' ''/api/services/2'' [''2'']) = Some (RouteById ''2'')
   \<and> services_match (sample_request ''GET'' ''/api/services/abc'' [''abc''])
       = Some (RouteById ''abc'')
   \<and> map_option (\<lambda>r. without_data_id (response_body r))
       (services_router sample_env (sample_request ''GET'' ''/api/services/2'' [''2''])
          new_response)
     = map_option (\<lambda>r. without_data_id (response_body r))
       (services_router sample_env (sample_request ''GET'' ''/api/services/abc'' [''abc''])
          new_response)
   \<and> map_option (\<lambda>r. js_get (js_get (response_body r) ''data'') ''id'')
       (services_router sample_env (sample_request ''GET'' ''/api/services/2'' [''2''])
          new_response)
     = Some (Num (IntN 2))"
proof -
  have m1: "services_match (sample_request ''GET'' ''/api/services/2'' [''2''])
     = Some (RouteById ''2'')"
    by (simp add: services_match_def sample_request_def toLowerCase_def lower_char_def)
  have m2: "services_match (sample_request ''GET'' ''/api/services/abc'' [''abc''])
     = Some (RouteById ''abc'')"
    by (simp add: services_match_def sample_request_def toLowerCase_def lower_char_def)
  have p: "parseInt ''2'' = IntN 2"
    by (simp add: parseInt_def js_whitespace_def unicode_whitespace_def digit_value_def
        digits_value_def to_double_def Let_def)
  from by_id_bodies_differ_in_id_only [OF m1 m2, of sample_env new_response sample_env] m1 m2 p
  show ?thesis by auto
qed

subsection \<open>The error middleware\<close>




end
